theory Spec2Isabelle
  imports Main "HOL-Library.Char_ord"
begin

section \<open>Strings\<close>

text \<open>
  A Go \<^verbatim>\<open>string\<close> is a sequence of bytes and \<^verbatim>\<open>len\<close> counts bytes, so a
  string is a \<^typ>\<open>char list\<close> and \<^verbatim>\<open>len\<close> is \<^const>\<open>length\<close>.
\<close>

definition isASCII :: "char \<Rightarrow> bool" where
  "isASCII c = ((of_char c :: nat) < 128)"

definition isUpperAZ :: "char \<Rightarrow> bool" where
  "isUpperAZ c = (CHR ''A'' \<le> c \<and> c \<le> CHR ''Z'')"

definition isLowerAZ :: "char \<Rightarrow> bool" where
  "isLowerAZ c = (CHR ''a'' \<le> c \<and> c \<le> CHR ''z'')"

definition isDigit :: "char \<Rightarrow> bool" where
  "isDigit c = (CHR ''0'' \<le> c \<and> c \<le> CHR ''9'')"

definition byteLower :: "char \<Rightarrow> char" where
  "byteLower c = (if isUpperAZ c then char_of (of_char c + (32::nat)) else c)"

text \<open>
  \<^verbatim>\<open>strings.ToLower\<close>: a string of ASCII bytes only is lowered byte by byte
  (\<^verbatim>\<open>c += 'a' - 'A'\<close> on \<^verbatim>\<open>'A'..'Z'\<close>); any other string goes through
  \<^verbatim>\<open>Map(unicode.ToLower, s)\<close>, whose Unicode tables belong to the Go library and
  are the parameter \<open>unicodeLower\<close> here.
\<close>

definition ToLower :: "(string \<Rightarrow> string) \<Rightarrow> string \<Rightarrow> string" where
  "ToLower unicodeLower s =
     (if list_all isASCII s then map byteLower s else unicodeLower s)"

text \<open>
  \<^verbatim>\<open>strings.SplitN(s, sep, n)\<close> for a one-byte separator: at most \<open>n\<close> pieces,
  the last one holding the unsplit rest; \<open>n = 0\<close> gives no piece at all.
\<close>

fun SplitN :: "string \<Rightarrow> char \<Rightarrow> nat \<Rightarrow> string list" where
  "SplitN s sep 0 = []"
| "SplitN s sep (Suc 0) = [s]"
| "SplitN s sep (Suc (Suc n)) =
     (if sep \<in> set s
      then takeWhile (\<lambda>c. c \<noteq> sep) s # SplitN (tl (dropWhile (\<lambda>c. c \<noteq> sep) s)) sep (Suc n)
      else [s])"

text \<open>\<^verbatim>\<open>%d\<close> of \<^verbatim>\<open>fmt\<close>: the decimal digits of an integer.\<close>

fun Itoa_nat :: "nat \<Rightarrow> string" where
  "Itoa_nat n =
     (if n < 10 then [char_of (48 + n)]
      else Itoa_nat (n div 10) @ [char_of (48 + n mod 10)])"

definition Itoa :: "int \<Rightarrow> string" where
  "Itoa i = (if i < 0 then CHR ''-'' # Itoa_nat (nat (- i)) else Itoa_nat (nat i))"

section \<open>Regular expressions\<close>

text \<open>
  The patterns of the source use character classes, literals, concatenation, \<^verbatim>\<open>+\<close>,
  \<^verbatim>\<open>{2,}\<close> and the anchors \<^verbatim>\<open>^\<close> and \<^verbatim>\<open>$\<close>. The constructors carry the names
  of Go's \<^verbatim>\<open>regexp/syntax\<close> operators. A class is its list of ranges, as it is
  written between the brackets: \<^verbatim>\<open>[a-z_]\<close> is \<open>[(a, z), (_, _)]\<close>. The classes of
  the source are ASCII, so matching bytes and matching runes agree.
\<close>

type_synonym charRange = "char \<times> char"

definition inClass :: "charRange list \<Rightarrow> char \<Rightarrow> bool" where
  "inClass rs c = list_ex (\<lambda>(lo, hi). lo \<le> c \<and> c \<le> hi) rs"

datatype Regexp =
    OpEmptyMatch
  | OpCharClass "charRange list"
  | OpConcat Regexp Regexp
  | OpAlternate Regexp Regexp
  | OpStar Regexp

definition OpLiteral :: "char \<Rightarrow> Regexp" where
  "OpLiteral c = OpCharClass [(c, c)]"

definition OpPlus :: "Regexp \<Rightarrow> Regexp" where
  "OpPlus r = OpConcat r (OpStar r)"

text \<open>\<^verbatim>\<open>r{n,}\<close>: \<open>n\<close> copies of \<open>r\<close>, then \<^verbatim>\<open>r*\<close>.\<close>

fun OpRepeatMin :: "nat \<Rightarrow> Regexp \<Rightarrow> Regexp" where
  "OpRepeatMin 0 r = OpStar r"
| "OpRepeatMin (Suc n) r = OpConcat r (OpRepeatMin n r)"

text \<open>Matching by derivatives: \<open>step c r\<close> matches what \<open>r\<close> matches after
  reading \<open>c\<close>; the empty class matches nothing.\<close>

fun nullable :: "Regexp \<Rightarrow> bool" where
  "nullable OpEmptyMatch = True"
| "nullable (OpCharClass rs) = False"
| "nullable (OpConcat r s) = (nullable r \<and> nullable s)"
| "nullable (OpAlternate r s) = (nullable r \<or> nullable s)"
| "nullable (OpStar r) = True"

fun step :: "char \<Rightarrow> Regexp \<Rightarrow> Regexp" where
  "step c OpEmptyMatch = OpCharClass []"
| "step c (OpCharClass rs) = (if inClass rs c then OpEmptyMatch else OpCharClass [])"
| "step c (OpConcat r s) =
     (if nullable r then OpAlternate (OpConcat (step c r) s) (step c s)
      else OpConcat (step c r) s)"
| "step c (OpAlternate r s) = OpAlternate (step c r) (step c s)"
| "step c (OpStar r) = OpConcat (step c r) (OpStar r)"

fun matches :: "Regexp \<Rightarrow> string \<Rightarrow> bool" where
  "matches r [] = nullable r"
| "matches r (c # cs) = matches (step c r) cs"

definition anyChar :: Regexp where
  "anyChar = OpCharClass [(CHR 0x00, CHR 0xFF)]"

text \<open>
  A compiled pattern: whether it starts with \<^verbatim>\<open>^\<close>, its body, whether it ends with
  \<^verbatim>\<open>$\<close>. \<^verbatim>\<open>MatchString\<close> looks for a match anywhere in the text; an anchor pins
  that end of the match to that end of the text (without the \<^verbatim>\<open>m\<close> flag, Go's
  \<^verbatim>\<open>$\<close> is the end of the text, not of a line).
\<close>

datatype Compiled = Compiled bool Regexp bool

fun MatchString :: "Compiled \<Rightarrow> string \<Rightarrow> bool" where
  "MatchString (Compiled beginText r endText) s =
     matches (OpConcat (if beginText then OpEmptyMatch else OpStar anyChar)
               (OpConcat r (if endText then OpEmptyMatch else OpStar anyChar))) s"

text \<open>The languages the operators denote, against which the matcher is checked.\<close>

definition catL :: "string set \<Rightarrow> string set \<Rightarrow> string set" where
  "catL A B = {u @ v | u v. u \<in> A \<and> v \<in> B}"

inductive_set starL :: "string set \<Rightarrow> string set" for A :: "string set" where
  starL_nil: "[] \<in> starL A"
| starL_app: "u \<in> A \<Longrightarrow> v \<in> starL A \<Longrightarrow> u @ v \<in> starL A"

fun lang :: "Regexp \<Rightarrow> string set" where
  "lang OpEmptyMatch = {[]}"
| "lang (OpCharClass rs) = {[c] | c. inClass rs c}"
| "lang (OpConcat r s) = catL (lang r) (lang s)"
| "lang (OpAlternate r s) = lang r \<union> lang s"
| "lang (OpStar r) = starL (lang r)"

section \<open>model: Gender\<close>

text \<open>\<^verbatim>\<open>type Gender string\<close>: any string can inhabit the type (a row scanned
  from the database, say), which is why \<^verbatim>\<open>IsValid\<close> is a real check.\<close>

type_synonym Gender = string

definition GenderUnknown :: Gender where "GenderUnknown = ''unknown''"
definition GenderMale :: Gender where "GenderMale = ''male''"
definition GenderFemale :: Gender where "GenderFemale = ''female''"

definition ParseGender :: "(string \<Rightarrow> string) \<Rightarrow> string \<Rightarrow> Gender" where
  "ParseGender unicodeLower gender =
     (let l = ToLower unicodeLower gender in
      if l = ''male'' then GenderMale
      else if l = ''female'' then GenderFemale
      else GenderUnknown)"

definition IsValid :: "Gender \<Rightarrow> bool" where
  "IsValid g = (g = GenderMale \<or> g = GenderFemale \<or> g = GenderUnknown)"

section \<open>model: users, requests, responses\<close>

text \<open>A \<^verbatim>\<open>time.Time\<close> is an instant on the clock, a number here.\<close>

type_synonym Time = int

record User =
  ID :: int
  Username :: string
  Email :: string
  Gender :: Gender
  PasswordHash :: string
  CreatedAt :: Time
  UpdatedAt :: Time

record UserCreateRequest =
  Username :: string
  Email :: string
  Gender :: string
  Password :: string

text \<open>The fields of an update request are pointers: \<open>None\<close> is \<^verbatim>\<open>nil\<close>.\<close>

record UserUpdateRequest =
  Username :: "string option"
  Email :: "string option"
  Gender :: "string option"
  Password :: "string option"

record UserResponse =
  ID :: int
  Username :: string
  Email :: string
  Gender :: Gender
  CreatedAt :: Time
  UpdatedAt :: Time

definition UsernameMinLength :: nat where "UsernameMinLength = 3"
definition UsernameMaxLength :: nat where "UsernameMaxLength = 50"
definition EmailMaxLength :: nat where "EmailMaxLength = 100"
definition PasswordMinLength :: nat where "PasswordMinLength = 8"

text \<open>\<^verbatim>\<open>^[a-zA-Z0-9._%+-]+@[a-zA-Z0-9.-]+\.[a-zA-Z]{2,}$\<close>\<close>

definition emailRegex :: Compiled where
  "emailRegex = Compiled True
     (OpConcat (OpPlus (OpCharClass
        [(CHR ''a'', CHR ''z''), (CHR ''A'', CHR ''Z''), (CHR ''0'', CHR ''9''),
         (CHR ''.'', CHR ''.''), (CHR ''_'', CHR ''_''), (CHR ''%'', CHR ''%''),
         (CHR ''+'', CHR ''+''), (CHR ''-'', CHR ''-'')]))
     (OpConcat (OpLiteral CHR ''@'')
     (OpConcat (OpPlus (OpCharClass
        [(CHR ''a'', CHR ''z''), (CHR ''A'', CHR ''Z''), (CHR ''0'', CHR ''9''),
         (CHR ''.'', CHR ''.''), (CHR ''-'', CHR ''-'')]))
     (OpConcat (OpLiteral CHR ''.'')
       (OpRepeatMin 2 (OpCharClass [(CHR ''a'', CHR ''z''), (CHR ''A'', CHR ''Z'')]))))))
     True"

text \<open>\<^verbatim>\<open>^[a-zA-Z0-9_-]+$\<close>\<close>

definition usernameRegex :: Compiled where
  "usernameRegex = Compiled True
     (OpPlus (OpCharClass
        [(CHR ''a'', CHR ''z''), (CHR ''A'', CHR ''Z''), (CHR ''0'', CHR ''9''),
         (CHR ''_'', CHR ''_''), (CHR ''-'', CHR ''-'')]))
     True"

section \<open>model: field validators\<close>

text \<open>A Go \<^verbatim>\<open>error\<close> is \<open>None\<close> for \<^verbatim>\<open>nil\<close> and \<open>Some msg\<close> for
  \<^verbatim>\<open>errors.New(msg)\<close>.\<close>

type_synonym error = "string option"

definition validateUsername :: "string \<Rightarrow> error" where
  "validateUsername username =
     (if length username < UsernameMinLength then Some ''username is too short''
      else if length username > UsernameMaxLength then Some ''username is too long''
      else if \<not> MatchString usernameRegex username
        then Some ''username can only contain alphanumeric characters, underscores, and hyphens''
      else None)"

definition validateEmail :: "string \<Rightarrow> error" where
  "validateEmail email =
     (if length email > EmailMaxLength then Some ''email is too long''
      else if \<not> MatchString emailRegex email then Some ''invalid email format''
      else None)"

definition validateGender :: "(string \<Rightarrow> string) \<Rightarrow> string \<Rightarrow> error" where
  "validateGender unicodeLower gender =
     (if gender = '''' then None
      else if \<not> IsValid (ParseGender unicodeLower gender)
        then Some ''gender must be one of: male, female, unknown''
      else None)"

definition validatePassword :: "string \<Rightarrow> error" where
  "validatePassword password =
     (if length password < PasswordMinLength then Some ''password is too short''
      else
        let hasUpper = MatchString (Compiled False (OpCharClass [(CHR ''A'', CHR ''Z'')]) False) password;
            hasLower = MatchString (Compiled False (OpCharClass [(CHR ''a'', CHR ''z'')]) False) password;
            hasNumber = MatchString (Compiled False (OpCharClass [(CHR ''0'', CHR ''9'')]) False) password
        in if \<not> hasUpper \<or> \<not> hasLower \<or> \<not> hasNumber
           then Some ''password must contain at least one uppercase letter, one lowercase letter, and one number''
           else None)"

section \<open>model: composed validators\<close>

text \<open>\<^verbatim>\<open>fmt.Errorf("username validation failed: %w", err)\<close> puts the prefix before
  the message of the wrapped error.\<close>

definition UserCreateRequest_Validate :: "(string \<Rightarrow> string) \<Rightarrow> UserCreateRequest \<Rightarrow> error" where
  "UserCreateRequest_Validate unicodeLower ucr =
     (case validateUsername (UserCreateRequest.Username ucr) of
        Some err \<Rightarrow> Some (''username validation failed: '' @ err)
      | None \<Rightarrow>
     (case validateEmail (UserCreateRequest.Email ucr) of
        Some err \<Rightarrow> Some (''email validation failed: '' @ err)
      | None \<Rightarrow>
     (case validateGender unicodeLower (UserCreateRequest.Gender ucr) of
        Some err \<Rightarrow> Some (''gender validation failed: '' @ err)
      | None \<Rightarrow>
     (case validatePassword (UserCreateRequest.Password ucr) of
        Some err \<Rightarrow> Some (''password validation failed: '' @ err)
      | None \<Rightarrow> None))))"

definition UserUpdateRequest_Validate :: "(string \<Rightarrow> string) \<Rightarrow> UserUpdateRequest \<Rightarrow> error" where
  "UserUpdateRequest_Validate unicodeLower uur =
     (case (case UserUpdateRequest.Username uur of
              None \<Rightarrow> None | Some username \<Rightarrow> validateUsername username) of
        Some err \<Rightarrow> Some (''username validation failed: '' @ err)
      | None \<Rightarrow>
     (case (case UserUpdateRequest.Email uur of
              None \<Rightarrow> None | Some email \<Rightarrow> validateEmail email) of
        Some err \<Rightarrow> Some (''email validation failed: '' @ err)
      | None \<Rightarrow>
     (case (case UserUpdateRequest.Gender uur of
              None \<Rightarrow> None | Some gender \<Rightarrow> validateGender unicodeLower gender) of
        Some err \<Rightarrow> Some (''gender validation failed: '' @ err)
      | None \<Rightarrow>
     (case (case UserUpdateRequest.Password uur of
              None \<Rightarrow> None | Some password \<Rightarrow> validatePassword password) of
        Some err \<Rightarrow> Some (''password validation failed: '' @ err)
      | None \<Rightarrow> None))))"

section \<open>model: what a client sees of a user\<close>

definition ToResponse :: "User \<Rightarrow> UserResponse" where
  "ToResponse u =
     \<lparr>UserResponse.ID = User.ID u,
      UserResponse.Username = User.Username u,
      UserResponse.Email = User.Email u,
      UserResponse.Gender = User.Gender u,
      UserResponse.CreatedAt = User.CreatedAt u,
      UserResponse.UpdatedAt = User.UpdatedAt u\<rparr>"

definition BeforeUpdate :: "Time \<Rightarrow> User \<Rightarrow> User" where
  "BeforeUpdate now u = u\<lparr>User.UpdatedAt := now\<rparr>"

text \<open>
  JSON values, as \<^verbatim>\<open>encoding/json\<close> writes them. A struct becomes the object of
  its tagged fields in declaration order; a field tagged \<^verbatim>\<open>json:"-"\<close> is left out.
  A \<^verbatim>\<open>gin.H\<close> is the object of its entries.
\<close>

datatype json =
    JNull
  | JBool bool
  | JInt int
  | JString string
  | JTime Time
  | JArray "json list"
  | JObject "(string \<times> json) list"

definition UserResponse_json :: "UserResponse \<Rightarrow> json" where
  "UserResponse_json r = JObject
     [(''id'', JInt (UserResponse.ID r)),
      (''username'', JString (UserResponse.Username r)),
      (''email'', JString (UserResponse.Email r)),
      (''gender'', JString (UserResponse.Gender r)),
      (''created_at'', JTime (UserResponse.CreatedAt r)),
      (''updated_at'', JTime (UserResponse.UpdatedAt r))]"

text \<open>\<^verbatim>\<open>json.Marshal\<close> of a \<^verbatim>\<open>User\<close>, by the tags of the struct:
  \<^verbatim>\<open>PasswordHash\<close> carries \<^verbatim>\<open>json:"-"\<close>.\<close>

definition User_json :: "User \<Rightarrow> json" where
  "User_json u = JObject
     [(''id'', JInt (User.ID u)),
      (''username'', JString (User.Username u)),
      (''email'', JString (User.Email u)),
      (''gender'', JString (User.Gender u)),
      (''created_at'', JTime (User.CreatedAt u)),
      (''updated_at'', JTime (User.UpdatedAt u))]"

section \<open>auth: passwords\<close>

text \<open>
  \<^verbatim>\<open>bcrypt\<close> is a library outside the repository. Its two entry points are
  parameters: \<open>generate\<close> is \<^verbatim>\<open>GenerateFromPassword\<close> at the default cost (the
  hash, or the error of the entropy source), \<open>compare\<close> is
  \<^verbatim>\<open>CompareHashAndPassword hash password\<close> (\<open>None\<close> when they agree).
\<close>

definition HashPassword :: "(string \<Rightarrow> string + string) \<Rightarrow> string \<Rightarrow> string + string" where
  "HashPassword generate password =
     (case generate password of
        Inl err \<Rightarrow> Inl (''failed to hash password: '' @ err)
      | Inr hashedBytes \<Rightarrow> Inr hashedBytes)"

definition CheckPassword :: "(string \<Rightarrow> string \<Rightarrow> error) \<Rightarrow> string \<Rightarrow> string \<Rightarrow> error" where
  "CheckPassword compare password hash =
     (case compare hash password of
        Some err \<Rightarrow> Some ''invalid password''
      | None \<Rightarrow> None)"

section \<open>The request context\<close>

text \<open>
  What the handlers use of a \<^verbatim>\<open>gin.Context\<close>: the headers of the request, the
  values stored under string keys, the responses written so far, and whether
  the chain of handlers was aborted. \<^verbatim>\<open>c.Next()\<close> runs the handlers that follow;
  they are a parameter of the handler that calls it.
\<close>

datatype any = AnyInt int | AnyString string

record Context =
  Header :: "string \<Rightarrow> string option"
  Keys :: "string \<Rightarrow> any option"
  Written :: "(nat \<times> json) list"
  Aborted :: bool

definition StatusOK :: nat where "StatusOK = 200"
definition StatusBadRequest :: nat where "StatusBadRequest = 400"
definition StatusUnauthorized :: nat where "StatusUnauthorized = 401"
definition StatusNotFound :: nat where "StatusNotFound = 404"
definition StatusConflict :: nat where "StatusConflict = 409"
definition StatusInternalServerError :: nat where "StatusInternalServerError = 500"

definition GetHeader :: "Context \<Rightarrow> string \<Rightarrow> string" where
  "GetHeader c key = (case Header c key of None \<Rightarrow> '''' | Some v \<Rightarrow> v)"

definition JSON :: "Context \<Rightarrow> nat \<Rightarrow> json \<Rightarrow> Context" where
  "JSON c code obj = c\<lparr>Written := Written c @ [(code, obj)]\<rparr>"

definition Abort :: "Context \<Rightarrow> Context" where
  "Abort c = c\<lparr>Aborted := True\<rparr>"

definition Set :: "Context \<Rightarrow> string \<Rightarrow> any \<Rightarrow> Context" where
  "Set c key v = c\<lparr>Keys := (Keys c)(key \<mapsto> v)\<rparr>"

section \<open>auth: session tokens\<close>

text \<open>
  Modelled from the spec: the claim set of a session token and the token manager; the
  file that declares \<^verbatim>\<open>Claims\<close>, \<^verbatim>\<open>JWTManager\<close> and \<^verbatim>\<open>NewJWTManager\<close> is not among
  the sources. The claim set is \<open>{subjectId, username, email, issuedAt, expiresAt}\<close>,
  read by the middleware as \<^verbatim>\<open>UserID\<close>, \<^verbatim>\<open>Username\<close> and \<^verbatim>\<open>Email\<close>; the manager
  holds the signing secret and the time to live. \<^verbatim>\<open>GenerateToken\<close> and
  \<^verbatim>\<open>ValidateToken\<close> are parameters of the handlers that call them.
\<close>

record Claims =
  UserID :: int
  Username :: string
  Email :: string
  IssuedAt :: Time
  ExpiresAt :: Time

record JWTManager =
  secretKey :: string
  tokenDuration :: int

definition NewJWTManager :: "string \<Rightarrow> int \<Rightarrow> JWTManager" where
  "NewJWTManager secret duration = \<lparr>secretKey = secret, tokenDuration = duration\<rparr>"

section \<open>auth: the middleware\<close>

definition AuthMiddleware ::
  "(JWTManager \<Rightarrow> string \<Rightarrow> string + Claims) \<Rightarrow> JWTManager \<Rightarrow> (Context \<Rightarrow> Context)
     \<Rightarrow> Context \<Rightarrow> Context" where
  "AuthMiddleware ValidateToken jwtManager Next c =
     (let authHeader = GetHeader c ''Authorization'' in
      if authHeader = '''' then
        Abort (JSON c StatusUnauthorized
          (JObject [(''error'', JString ''Authorization header is required'')]))
      else
        let parts = SplitN authHeader CHR '' '' 2 in
        if length parts \<noteq> 2 \<or> parts ! 0 \<noteq> ''Bearer'' then
          Abort (JSON c StatusUnauthorized
            (JObject [(''error'', JString ''Invalid authorization header format'')]))
        else
          (case ValidateToken jwtManager (parts ! 1) of
             Inl err \<Rightarrow>
               Abort (JSON c StatusUnauthorized
                 (JObject [(''error'', JString ''Invalid or expired token'')]))
           | Inr claims \<Rightarrow>
               Next (Set (Set (Set c ''user_id'' (AnyInt (Claims.UserID claims)))
                              ''username'' (AnyString (Claims.Username claims)))
                         ''email'' (AnyString (Claims.Email claims)))))"

text \<open>\<^verbatim>\<open>c.Get\<close> followed by a type assertion: the zero value and \<^verbatim>\<open>false\<close> when
  the key is absent or holds a value of another type.\<close>

definition GetUserID :: "Context \<Rightarrow> int \<times> bool" where
  "GetUserID c =
     (case Keys c ''user_id'' of
        None \<Rightarrow> (0, False)
      | Some (AnyInt id') \<Rightarrow> (id', True)
      | Some (AnyString _) \<Rightarrow> (0, False))"

definition GetUsername :: "Context \<Rightarrow> string \<times> bool" where
  "GetUsername c =
     (case Keys c ''username'' of
        None \<Rightarrow> ('''', False)
      | Some (AnyString name) \<Rightarrow> (name, True)
      | Some (AnyInt _) \<Rightarrow> ('''', False))"

definition GetEmail :: "Context \<Rightarrow> string \<times> bool" where
  "GetEmail c =
     (case Keys c ''email'' of
        None \<Rightarrow> ('''', False)
      | Some (AnyString e) \<Rightarrow> (e, True)
      | Some (AnyInt _) \<Rightarrow> ('''', False))"

section \<open>The bcrypt library\<close>

text \<open>
  Modelled from the documentation of \<^verbatim>\<open>golang.org/x/crypto/bcrypt\<close>, which is not code
  of the repository. A hash is the version and cost prefix, the 22 characters of the
  salt, and the digest; the digest is a function of the salt and of the first 72
  bytes of the password, the longest key bcrypt operates on. That function is the
  parameter \<open>digest\<close>: nothing below depends on which one it is.
\<close>

definition ErrPasswordTooLong :: string where
  "ErrPasswordTooLong = ''bcrypt: password length exceeds 72 bytes''"

definition ErrMismatchedHashAndPassword :: string where
  "ErrMismatchedHashAndPassword =
     ''crypto/bcrypt: hashedPassword is not the hash of the given password''"

definition bcryptHash :: "(string \<Rightarrow> string \<Rightarrow> string) \<Rightarrow> string \<Rightarrow> string \<Rightarrow> string" where
  "bcryptHash digest salt password = ''$2a$10$'' @ salt @ digest salt (take 72 password)"

text \<open>
  \<^verbatim>\<open>GenerateFromPassword(password, DefaultCost)\<close>: "does not accept passwords longer
  than 72 bytes"; otherwise it draws a salt, which can fail with the error of the
  entropy source, and returns the hash. The argument \<open>entropy\<close> is the outcome of
  that draw.
\<close>

definition GenerateFromPassword ::
  "(string \<Rightarrow> string \<Rightarrow> string) \<Rightarrow> string + string \<Rightarrow> string \<Rightarrow> string + string" where
  "GenerateFromPassword digest entropy password =
     (if length password > 72 then Inl ErrPasswordTooLong
      else case entropy of
             Inl err \<Rightarrow> Inl err
           | Inr salt \<Rightarrow> Inr (bcryptHash digest salt password))"

text \<open>The same function before the library refused long passwords: the bytes after
  the 72nd were ignored.\<close>

definition GenerateFromPasswordLegacy ::
  "(string \<Rightarrow> string \<Rightarrow> string) \<Rightarrow> string + string \<Rightarrow> string \<Rightarrow> string + string" where
  "GenerateFromPasswordLegacy digest entropy password =
     (case entropy of
        Inl err \<Rightarrow> Inl err
      | Inr salt \<Rightarrow> Inr (bcryptHash digest salt password))"

text \<open>
  \<^verbatim>\<open>CompareHashAndPassword(hashedPassword, password)\<close>: reads the salt out of the
  hash, hashes the password with it, and compares the two hashes; "returns nil on
  success, or an error on failure".
\<close>

definition CompareHashAndPassword ::
  "(string \<Rightarrow> string \<Rightarrow> string) \<Rightarrow> string \<Rightarrow> string \<Rightarrow> error" where
  "CompareHashAndPassword digest hashedPassword password =
     (let salt = take 22 (drop 7 hashedPassword) in
      if hashedPassword = bcryptHash digest salt password then None
      else Some ErrMismatchedHashAndPassword)"

section \<open>repository: the users table\<close>

text \<open>
  The table is the list of its rows. A statement sent to the database can fail in
  the driver (a lost connection, a violated constraint, a value that does not
  scan): \<open>driver q tbl\<close> is that error, if any, for the statement \<open>q\<close> on the table
  \<open>tbl\<close>, and a statement that fails changes nothing. The driver is a parameter.
\<close>

type_synonym Table = "User list"

datatype Query =
    SelectByID int
  | SelectByEmail string
  | CountByUsername string
  | CountByEmail string
  | UpdateUser User
  | RowsAffected

type_synonym Driver = "Query \<Rightarrow> Table \<Rightarrow> string option"

definition GetByID :: "Driver \<Rightarrow> Table \<Rightarrow> int \<Rightarrow> string + User" where
  "GetByID driver tbl id' =
     (case driver (SelectByID id') tbl of
        Some err \<Rightarrow> Inl (''failed to get user: '' @ err)
      | None \<Rightarrow>
          (case find (\<lambda>row. User.ID row = id') tbl of
             None \<Rightarrow> Inl (''user with ID '' @ Itoa id' @ '' not found'')
           | Some user \<Rightarrow> Inr user))"

definition GetByEmail :: "Driver \<Rightarrow> Table \<Rightarrow> string \<Rightarrow> string + User" where
  "GetByEmail driver tbl email =
     (case driver (SelectByEmail email) tbl of
        Some err \<Rightarrow> Inl (''failed to get user: '' @ err)
      | None \<Rightarrow>
          (case find (\<lambda>row. User.Email row = email) tbl of
             None \<Rightarrow> Inl (''user with email '' @ [CHR 0x27] @ email @ [CHR 0x27] @ '' not found'')
           | Some user \<Rightarrow> Inr user))"

definition ExistsByUsername :: "Driver \<Rightarrow> Table \<Rightarrow> string \<Rightarrow> string + bool" where
  "ExistsByUsername driver tbl username =
     (case driver (CountByUsername username) tbl of
        Some err \<Rightarrow> Inl (''failed to check username existence: '' @ err)
      | None \<Rightarrow> Inr (length (filter (\<lambda>row. User.Username row = username) tbl) > 0))"

definition ExistsByEmail :: "Driver \<Rightarrow> Table \<Rightarrow> string \<Rightarrow> string + bool" where
  "ExistsByEmail driver tbl email =
     (case driver (CountByEmail email) tbl of
        Some err \<Rightarrow> Inl (''failed to check email existence: '' @ err)
      | None \<Rightarrow> Inr (length (filter (\<lambda>row. User.Email row = email) tbl) > 0))"

text \<open>
  \<^verbatim>\<open>UPDATE users SET username, email, gender, password_hash, updated_at WHERE id\<close>:
  the five columns of every row with that id are overwritten; \<^verbatim>\<open>id\<close> and
  \<^verbatim>\<open>created_at\<close> are not among them.
\<close>

definition setRow :: "User \<Rightarrow> User \<Rightarrow> User" where
  "setRow user row =
     (if User.ID row = User.ID user
      then row\<lparr>User.Username := User.Username user,
               User.Email := User.Email user,
               User.Gender := User.Gender user,
               User.PasswordHash := User.PasswordHash user,
               User.UpdatedAt := User.UpdatedAt user\<rparr>
      else row)"

text \<open>
  \<^verbatim>\<open>Update\<close> stamps the user it was given (through the pointer, so the caller sees
  it), sends the statement, then asks how many rows it touched. It returns the
  error, the user as stamped, and the table.
\<close>

definition Update :: "Driver \<Rightarrow> Time \<Rightarrow> Table \<Rightarrow> User \<Rightarrow> error \<times> User \<times> Table" where
  "Update driver now tbl user0 =
     (let user = BeforeUpdate now user0 in
      case driver (UpdateUser user) tbl of
        Some err \<Rightarrow> (Some (''failed to update user: '' @ err), user, tbl)
      | None \<Rightarrow>
          (let tbl' = map (setRow user) tbl;
               rowsAffected = length (filter (\<lambda>row. User.ID row = User.ID user) tbl)
           in case driver RowsAffected tbl' of
                Some err \<Rightarrow> (Some (''failed to get rows affected: '' @ err), user, tbl')
              | None \<Rightarrow>
                  if rowsAffected = 0
                  then (Some (''user with ID '' @ Itoa (User.ID user) @ '' not found''), user, tbl')
                  else (None, user, tbl')))"

section \<open>app: configuration\<close>

record AppConfig =
  AppName :: string
  JWTSecret :: string
  JWTExpiration :: int

definition config :: AppConfig where
  "config = \<lparr>AppName = ''WishlistSNS'',
             JWTSecret = ''your-super-secret-jwt-key-change-in-production'',
             JWTExpiration = 24\<rparr>"

text \<open>\<^verbatim>\<open>time.Hour\<close>, in nanoseconds.\<close>

definition Hour :: int where "Hour = 3600000000000"

section \<open>action: what a handler is given\<close>

text \<open>
  The collaborators of the handlers that are not code of the repository: the Unicode
  tables of \<^verbatim>\<open>strings.ToLower\<close>, \<^verbatim>\<open>bcrypt\<close>, the database driver, the clock
  (\<open>Now n\<close> is what the \<open>n\<close>-th reading of \<^verbatim>\<open>time.Now().UTC()\<close> in a request returns),
  and the two methods of the token manager.
\<close>

record Env =
  lowerUnicode :: "string \<Rightarrow> string"
  bcryptGenerate :: "string \<Rightarrow> string + string"
  bcryptCompare :: "string \<Rightarrow> string \<Rightarrow> error"
  driver :: Driver
  Now :: "nat \<Rightarrow> Time"
  GenerateToken :: "JWTManager \<Rightarrow> int \<Rightarrow> string \<Rightarrow> string \<Rightarrow> string + string"
  ValidateToken :: "JWTManager \<Rightarrow> string \<Rightarrow> string + Claims"

section \<open>action: login\<close>

record UserLoginRequest =
  Email :: string
  Password :: string

text \<open>
  A handler takes the context and returns it with what it wrote. The argument
  \<open>bind\<close> is the outcome of \<^verbatim>\<open>ctx.ShouldBindJSON(&req)\<close>: the error of the binder, or
  the request it filled in.
\<close>

definition ActionLogin :: "Env \<Rightarrow> Table \<Rightarrow> string + UserLoginRequest \<Rightarrow> Context \<Rightarrow> Context" where
  "ActionLogin env tbl bind ctx =
     (case bind of
        Inl err \<Rightarrow>
          JSON ctx StatusBadRequest
            (JObject [(''error'', JString ''Invalid request format''), (''details'', JString err)])
      | Inr req \<Rightarrow>
     (case GetByEmail (driver env) tbl (UserLoginRequest.Email req) of
        Inl err \<Rightarrow>
          JSON ctx StatusUnauthorized
            (JObject [(''error'', JString ''Invalid email or password'')])
      | Inr user \<Rightarrow>
     (case CheckPassword (bcryptCompare env) (UserLoginRequest.Password req) (User.PasswordHash user) of
        Some err \<Rightarrow>
          JSON ctx StatusUnauthorized
            (JObject [(''error'', JString ''Invalid email or password'')])
      | None \<Rightarrow>
     (let jwtManager = NewJWTManager (JWTSecret config) (JWTExpiration config * Hour) in
      case GenerateToken env jwtManager (User.ID user) (User.Username user) (User.Email user) of
        Inl err \<Rightarrow>
          JSON ctx StatusInternalServerError
            (JObject [(''error'', JString ''Failed to generate authentication token''),
                      (''details'', JString err)])
      | Inr token \<Rightarrow>
          JSON ctx StatusOK
            (JObject [(''message'', JString ''Login successful''),
                      (''data'', JObject
                         [(''token'', JString token),
                          (''user'', UserResponse_json (ToResponse user)),
                          (''expires_in'', JInt (JWTExpiration config * 3600)),
                          (''token_type'', JString ''Bearer'')])])))))"

section \<open>action: profile update\<close>

text \<open>The handler also returns the table, which \<^verbatim>\<open>userRepo.Update\<close> may have
  changed.\<close>

definition ActionUpdateProfile ::
  "Env \<Rightarrow> string + UserUpdateRequest \<Rightarrow> Table \<Rightarrow> Context \<Rightarrow> Context \<times> Table" where
  "ActionUpdateProfile env bind tbl ctx =
     (case GetUserID ctx of (userID, exists) \<Rightarrow>
      if \<not> exists then
        (JSON ctx StatusUnauthorized (JObject [(''error'', JString ''User not authenticated'')]), tbl)
      else
     (case bind of
        Inl err \<Rightarrow>
          (JSON ctx StatusBadRequest
             (JObject [(''error'', JString ''Invalid request format''), (''details'', JString err)]), tbl)
      | Inr req \<Rightarrow>
     (case UserUpdateRequest_Validate (lowerUnicode env) req of
        Some err \<Rightarrow>
          (JSON ctx StatusBadRequest
             (JObject [(''error'', JString ''Validation failed''), (''details'', JString err)]), tbl)
      | None \<Rightarrow>
     (case GetByID (driver env) tbl userID of
        Inl err \<Rightarrow>
          (JSON ctx StatusNotFound
             (JObject [(''error'', JString ''User not found''), (''details'', JString err)]), tbl)
      | Inr user \<Rightarrow>
     (case (case UserUpdateRequest.Username req of
              None \<Rightarrow> Inr user
            | Some username \<Rightarrow>
                if username \<noteq> User.Username user then
                  (case ExistsByUsername (driver env) tbl username of
                     Inl err \<Rightarrow> Inl (StatusInternalServerError,
                       JObject [(''error'', JString ''Failed to check username availability''),
                                (''details'', JString err)])
                   | Inr taken \<Rightarrow>
                       if taken
                       then Inl (StatusConflict, JObject [(''error'', JString ''Username already exists'')])
                       else Inr (user\<lparr>User.Username := username\<rparr>))
                else Inr user) of
        Inl resp \<Rightarrow> (JSON ctx (fst resp) (snd resp), tbl)
      | Inr user \<Rightarrow>
     (case (case UserUpdateRequest.Email req of
              None \<Rightarrow> Inr user
            | Some email \<Rightarrow>
                if email \<noteq> User.Email user then
                  (case ExistsByEmail (driver env) tbl email of
                     Inl err \<Rightarrow> Inl (StatusInternalServerError,
                       JObject [(''error'', JString ''Failed to check email availability''),
                                (''details'', JString err)])
                   | Inr taken \<Rightarrow>
                       if taken
                       then Inl (StatusConflict, JObject [(''error'', JString ''Email already exists'')])
                       else Inr (user\<lparr>User.Email := email\<rparr>))
                else Inr user) of
        Inl resp \<Rightarrow> (JSON ctx (fst resp) (snd resp), tbl)
      | Inr user \<Rightarrow>
     (let user = (case UserUpdateRequest.Gender req of
                    None \<Rightarrow> user
                  | Some gender \<Rightarrow> user\<lparr>User.Gender := ParseGender (lowerUnicode env) gender\<rparr>)
      in
      case (case UserUpdateRequest.Password req of
              None \<Rightarrow> Inr user
            | Some password \<Rightarrow>
                (case HashPassword (bcryptGenerate env) password of
                   Inl err \<Rightarrow> Inl (StatusInternalServerError,
                     JObject [(''error'', JString ''Failed to hash password''),
                              (''details'', JString err)])
                 | Inr passwordHash \<Rightarrow> Inr (user\<lparr>User.PasswordHash := passwordHash\<rparr>))) of
        Inl resp \<Rightarrow> (JSON ctx (fst resp) (snd resp), tbl)
      | Inr user \<Rightarrow>
     (case Update (driver env) (Now env 1) tbl (BeforeUpdate (Now env 0) user) of
        (Some err, user, tbl') \<Rightarrow>
          (JSON ctx StatusInternalServerError
             (JObject [(''error'', JString ''Failed to update user''), (''details'', JString err)]), tbl')
      | (None, user, tbl') \<Rightarrow>
          (JSON ctx StatusOK
             (JObject [(''message'', JString ''Profile updated successfully''),
                       (''data'', UserResponse_json (ToResponse user))]), tbl')))))))))"

section \<open>Character classes and the shape of an accepted email\<close>

text \<open>The character classes of the patterns of the source, as predicates. Letters,
  digits and case are the ASCII ones.\<close>

definition isLetter :: "char \<Rightarrow> bool" where
  "isLetter c = (isLowerAZ c \<or> isUpperAZ c)"

text \<open>\<^verbatim>\<open>[a-zA-Z0-9_-]\<close>\<close>

definition usernameChar :: "char \<Rightarrow> bool" where
  "usernameChar c = (isLetter c \<or> isDigit c \<or> c = CHR ''_'' \<or> c = CHR ''-'')"

text \<open>\<^verbatim>\<open>[a-zA-Z0-9._%+-]\<close>\<close>

definition localChar :: "char \<Rightarrow> bool" where
  "localChar c = (isLetter c \<or> isDigit c \<or> c = CHR ''.'' \<or> c = CHR ''_''
     \<or> c = CHR ''%'' \<or> c = CHR ''+'' \<or> c = CHR ''-'')"

text \<open>\<^verbatim>\<open>[a-zA-Z0-9.-]\<close>: the dot is a member of the class like any other.\<close>

definition domainChar :: "char \<Rightarrow> bool" where
  "domainChar c = (isLetter c \<or> isDigit c \<or> c = CHR ''.'' \<or> c = CHR ''-'')"

text \<open>
  The strings \<^verbatim>\<open>emailRegex\<close> matches, read off the pattern of the source piece by
  piece: \<^verbatim>\<open>[a-zA-Z0-9._%+-]+\<close>, \<^verbatim>\<open>@\<close>, \<^verbatim>\<open>[a-zA-Z0-9.-]+\<close>, \<^verbatim>\<open>\.\<close>,
  \<^verbatim>\<open>[a-zA-Z]{2,}\<close>. This is the code's pattern, not the specification's: the part
  between the at sign and the last dot is any non-empty string of the class, dots
  included.
\<close>

definition emailRegexShape :: "string \<Rightarrow> bool" where
  "emailRegexShape s =
     (\<exists>local domain tld.
        s = local @ ''@'' @ domain @ ''.'' @ tld
        \<and> local \<noteq> [] \<and> list_all localChar local
        \<and> domain \<noteq> [] \<and> list_all domainChar domain
        \<and> 2 \<le> length tld \<and> list_all isLetter tld)"

section \<open>The specification's words\<close>

text \<open>
  What the specification says, written from its sentences and compared with the code
  below.
\<close>

text \<open>The pieces of a string between the occurrences of a separator; a string
  without the separator is its own single piece.\<close>

fun splitOn :: "char \<Rightarrow> string \<Rightarrow> string list" where
  "splitOn sep [] = [[]]"
| "splitOn sep (c # cs) =
     (if c = sep then [] # splitOn sep cs
      else (case splitOn sep cs of [] \<Rightarrow> [[c]] | piece # pieces \<Rightarrow> (c # piece) # pieces))"

text \<open>A label of a domain name: letters, digits and hyphens, no dot.\<close>

definition labelChar :: "char \<Rightarrow> bool" where
  "labelChar c = (isLetter c \<or> isDigit c \<or> c = CHR ''-'')"

text \<open>
  "The pattern \<^verbatim>\<open>local-part@domain.tld\<close> (ASCII local part of
  \<^verbatim>\<open>[A-Za-z0-9._%+-]+\<close>, domain of labels separated by \<^verbatim>\<open>.\<close>, final label at least
  2 letters)": before the at sign a non-empty local part over its class; after it,
  split at the dots, at least one label of the domain and then the final label; every
  label of the domain is non-empty; the final label is two letters or more.
\<close>

definition specEmailPattern :: "string \<Rightarrow> bool" where
  "specEmailPattern s =
     (let local = takeWhile (\<lambda>c. c \<noteq> CHR ''@'') s;
          labels = splitOn CHR ''.'' (tl (dropWhile (\<lambda>c. c \<noteq> CHR ''@'') s))
      in CHR ''@'' \<in> set s
         \<and> local \<noteq> [] \<and> list_all localChar local
         \<and> 2 \<le> length labels
         \<and> list_all (\<lambda>label. label \<noteq> [] \<and> list_all labelChar label) (butlast labels)
         \<and> 2 \<le> length (last labels) \<and> list_all isLetter (last labels))"

text \<open>"Run each applicable check and return the first failure encountered": the
  first error in a list of outcomes, \<open>None\<close> when there is none.\<close>

fun firstFailure :: "error list \<Rightarrow> error" where
  "firstFailure [] = None"
| "firstFailure (None # rest) = firstFailure rest"
| "firstFailure (Some err # rest) = Some err"

text \<open>The outcome of the check of one field: its error, if any, under the name of
  the field.\<close>

definition fieldCheck :: "string \<Rightarrow> error \<Rightarrow> error" where
  "fieldCheck field outcome =
     (case outcome of None \<Rightarrow> None | Some err \<Rightarrow> Some (field @ '' validation failed: '' @ err))"

text \<open>A check that applies only to a field that is present.\<close>

definition whenPresent :: "(string \<Rightarrow> error) \<Rightarrow> string option \<Rightarrow> error" where
  "whenPresent check field = (case field of None \<Rightarrow> None | Some v \<Rightarrow> check v)"

text \<open>The two-part shape \<^verbatim>\<open>Bearer <value>\<close> of an authorization header.\<close>

definition bearerShape :: "string \<Rightarrow> bool" where
  "bearerShape h = (\<exists>v. h = ''Bearer '' @ v)"

section \<open>Sample inputs\<close>

text \<open>Concrete collaborators, rows and contexts on which the results below are
  evaluated.\<close>

definition sampleEnv :: Env where
  "sampleEnv =
     \<lparr>lowerUnicode = (\<lambda>s. s),
      bcryptGenerate = (\<lambda>password. Inr (''hash of '' @ password)),
      bcryptCompare = (\<lambda>hash password.
         if hash = ''hash of '' @ password then None else Some ''hash and password differ''),
      driver = (\<lambda>q tbl. None),
      Now = (\<lambda>n. 1000 + int n),
      GenerateToken = (\<lambda>m uid username email. Inr (''token for '' @ username)),
      ValidateToken = (\<lambda>m token.
         if token = ''good''
         then Inr \<lparr>Claims.UserID = 1, Username = ''alice'', Email = ''alice@example.org'',
                   IssuedAt = 1000, ExpiresAt = 2000\<rparr>
         else Inl ''token is expired'')\<rparr>"

definition alice :: User where
  "alice = \<lparr>User.ID = 1, Username = ''alice'', Email = ''alice@example.org'',
            Gender = ''female'', PasswordHash = ''hash of Passw0rd'',
            CreatedAt = 10, UpdatedAt = 20\<rparr>"

definition bob :: User where
  "bob = \<lparr>User.ID = 2, Username = ''bob'', Email = ''bob@example.org'',
          Gender = ''unknown'', PasswordHash = ''hash of S3cretKey'',
          CreatedAt = 30, UpdatedAt = 40\<rparr>"

definition request :: "string option \<Rightarrow> Context" where
  "request authorization =
     \<lparr>Header = (\<lambda>key. if key = ''Authorization'' then authorization else None),
      Keys = (\<lambda>key. None), Written = [], Aborted = False\<rparr>"

text \<open>The token manager that \<^verbatim>\<open>RegisterRoutes\<close> builds from the configuration.\<close>

definition sampleManager :: JWTManager where
  "sampleManager = NewJWTManager (JWTSecret config) (JWTExpiration config * Hour)"

text \<open>A salt of 22 characters and a stand-in for the digest.\<close>

definition sampleSalt :: string where
  "sampleSalt = ''N9qo8uLOickgx2ZMRZoMye''"

definition sampleDigest :: "string \<Rightarrow> string \<Rightarrow> string" where
  "sampleDigest salt key = rev key"

section \<open>Regular expressions: the matcher decides the language\<close>

lemma in_catL: "w \<in> catL A B \<longleftrightarrow> (\<exists>u v. w = u @ v \<and> u \<in> A \<and> v \<in> B)"
  by (auto simp: catL_def)

lemma nil_in_catL: "[] \<in> catL A B \<longleftrightarrow> [] \<in> A \<and> [] \<in> B"
  by (simp add: in_catL)

lemma cons_in_catL:
  "c # w \<in> catL A B \<longleftrightarrow>
     ([] \<in> A \<and> c # w \<in> B) \<or> (\<exists>u v. w = u @ v \<and> c # u \<in> A \<and> v \<in> B)"
proof
  assume "c # w \<in> catL A B"
  then obtain u v where uv: "c # w = u @ v" "u \<in> A" "v \<in> B"
    by (auto simp: in_catL)
  show "([] \<in> A \<and> c # w \<in> B) \<or> (\<exists>u v. w = u @ v \<and> c # u \<in> A \<and> v \<in> B)"
  proof (cases u)
    case Nil
    with uv show ?thesis by simp
  next
    case (Cons a u')
    with uv have "w = u' @ v" "c # u' \<in> A" by simp_all
    with uv show ?thesis by blast
  qed
next
  assume "([] \<in> A \<and> c # w \<in> B) \<or> (\<exists>u v. w = u @ v \<and> c # u \<in> A \<and> v \<in> B)"
  then show "c # w \<in> catL A B"
  proof
    assume "[] \<in> A \<and> c # w \<in> B"
    then have "\<exists>u v. c # w = u @ v \<and> u \<in> A \<and> v \<in> B"
      by (intro exI [of _ "[]"] exI [of _ "c # w"]) simp
    then show ?thesis by (simp add: in_catL)
  next
    assume "\<exists>u v. w = u @ v \<and> c # u \<in> A \<and> v \<in> B"
    then obtain u v where "w = u @ v" "c # u \<in> A" "v \<in> B" by blast
    then have "\<exists>u' v'. c # w = u' @ v' \<and> u' \<in> A \<and> v' \<in> B"
      by (intro exI [of _ "c # u"] exI [of _ v]) simp
    then show ?thesis by (simp add: in_catL)
  qed
qed

lemma starL_cons_split:
  "x \<in> starL A \<Longrightarrow> x = c # w \<Longrightarrow> \<exists>u v. w = u @ v \<and> c # u \<in> A \<and> v \<in> starL A"
proof (induction arbitrary: c w rule: starL.induct)
  case starL_nil
  then show ?case by simp
next
  case (starL_app u v)
  show ?case
  proof (cases u)
    case Nil
    with starL_app show ?thesis by simp
  next
    case (Cons a u')
    with starL_app.prems have "w = u' @ v" "a = c" by simp_all
    with Cons starL_app.hyps show ?thesis by blast
  qed
qed

lemma cons_in_starL:
  "c # w \<in> starL A \<longleftrightarrow> (\<exists>u v. w = u @ v \<and> c # u \<in> A \<and> v \<in> starL A)"
proof
  assume "c # w \<in> starL A"
  then show "\<exists>u v. w = u @ v \<and> c # u \<in> A \<and> v \<in> starL A"
    by (rule starL_cons_split) simp
next
  assume "\<exists>u v. w = u @ v \<and> c # u \<in> A \<and> v \<in> starL A"
  then obtain u v where "w = u @ v" "c # u \<in> A" "v \<in> starL A" by blast
  then have "(c # u) @ v \<in> starL A" by (blast intro: starL_app)
  with \<open>w = u @ v\<close> show "c # w \<in> starL A" by simp
qed

lemma nullable_lang: "nullable r \<longleftrightarrow> [] \<in> lang r"
  by (induction r) (auto simp: nil_in_catL intro: starL_nil)

lemma step_lang: "w \<in> lang (step c r) \<longleftrightarrow> c # w \<in> lang r"
proof (induction r arbitrary: w)
  case OpEmptyMatch
  show ?case by (simp add: inClass_def)
next
  case (OpCharClass rs)
  show ?case by (auto simp: inClass_def)
next
  case (OpConcat r s)
  have front: "w \<in> catL (lang (step c r)) (lang s)
      \<longleftrightarrow> (\<exists>u v. w = u @ v \<and> c # u \<in> lang r \<and> v \<in> lang s)"
    by (simp add: in_catL OpConcat.IH(1))
  show ?case
    by (simp add: front cons_in_catL nullable_lang OpConcat.IH(2)) blast
next
  case (OpAlternate r s)
  then show ?case by simp
next
  case (OpStar r)
  have "w \<in> catL (lang (step c r)) (starL (lang r))
      \<longleftrightarrow> (\<exists>u v. w = u @ v \<and> c # u \<in> lang r \<and> v \<in> starL (lang r))"
    by (simp add: in_catL OpStar.IH)
  then show ?case
    by (simp add: cons_in_starL)
qed

lemma matches_lang: "matches r s \<longleftrightarrow> s \<in> lang r"
  by (induction s arbitrary: r) (simp_all add: nullable_lang step_lang)

subsection \<open>The languages of the shapes the source uses\<close>

lemma catL_eps [simp]: "catL {[]} A = A" "catL A {[]} = A"
  by (auto simp: catL_def)

lemma starL_class:
  "w \<in> starL {[c] | c. P c} \<longleftrightarrow> list_all P w"
proof (induction w)
  case Nil
  show ?case by (simp add: starL_nil)
next
  case (Cons a w)
  have "a # w \<in> starL {[c] | c. P c}
      \<longleftrightarrow> (\<exists>u v. w = u @ v \<and> a # u \<in> {[c] | c. P c} \<and> v \<in> starL {[c] | c. P c})"
    by (rule cons_in_starL)
  also have "\<dots> \<longleftrightarrow> P a \<and> w \<in> starL {[c] | c. P c}"
    by auto
  finally show ?case by (simp add: Cons.IH)
qed

lemma lang_star_class:
  "w \<in> lang (OpStar (OpCharClass rs)) \<longleftrightarrow> list_all (inClass rs) w"
  by (simp add: starL_class)

lemma lang_repeat_class:
  "w \<in> lang (OpRepeatMin n (OpCharClass rs)) \<longleftrightarrow> n \<le> length w \<and> list_all (inClass rs) w"
proof (induction n arbitrary: w)
  case 0
  show ?case by (simp add: starL_class)
next
  case (Suc n)
  show ?case
  proof (cases w)
    case Nil
    then show ?thesis by (simp add: in_catL)
  next
    case (Cons a w')
    then show ?thesis by (auto simp: cons_in_catL Suc.IH)
  qed
qed

lemma lang_plus_class:
  "w \<in> lang (OpPlus (OpCharClass rs)) \<longleftrightarrow> w \<noteq> [] \<and> list_all (inClass rs) w"
proof (cases w)
  case Nil
  then show ?thesis by (simp add: OpPlus_def in_catL)
next
  case (Cons a w')
  then show ?thesis by (auto simp: OpPlus_def cons_in_catL starL_class)
qed

lemma lang_literal: "lang (OpLiteral c) = {[c]}"
  by (auto simp: OpLiteral_def inClass_def)

lemma inClass_anyChar: "inClass [(CHR 0x00, CHR 0xFF)] c"
proof -
  have "(of_char c :: nat) < 256" by (cases c) simp
  then have "(of_char c :: nat) \<le> 255" by linarith
  then show ?thesis by (simp add: inClass_def less_eq_char_def)
qed

lemma lang_any: "w \<in> lang (OpStar anyChar)"
proof -
  have "w \<in> starL {[c] | c. inClass [(CHR 0x00, CHR 0xFF)] c}
      \<longleftrightarrow> list_all (inClass [(CHR 0x00, CHR 0xFF)]) w"
    by (rule starL_class)
  then show ?thesis
    by (simp add: anyChar_def inClass_anyChar list_all_iff)
qed

lemma MatchString_anchored:
  "MatchString (Compiled True r True) s \<longleftrightarrow> s \<in> lang r"
  by (simp add: matches_lang)

lemma MatchString_search_class:
  "MatchString (Compiled False (OpCharClass rs) False) s \<longleftrightarrow> list_ex (inClass rs) s"
proof -
  have "MatchString (Compiled False (OpCharClass rs) False) s
      \<longleftrightarrow> (\<exists>u v. s = u @ v \<and> (\<exists>x y. v = x @ y \<and> (\<exists>c. x = [c] \<and> inClass rs c)))"
    by (simp add: matches_lang in_catL lang_any del: lang.simps(5))
  also have "\<dots> \<longleftrightarrow> (\<exists>ys c zs. s = ys @ c # zs \<and> inClass rs c)"
  proof
    assume "\<exists>u v. s = u @ v \<and> (\<exists>x y. v = x @ y \<and> (\<exists>c. x = [c] \<and> inClass rs c))"
    then obtain u y c where "s = u @ [c] @ y" "inClass rs c" by blast
    then have "s = u @ c # y \<and> inClass rs c" by simp
    then show "\<exists>ys c zs. s = ys @ c # zs \<and> inClass rs c" by blast
  next
    assume "\<exists>ys c zs. s = ys @ c # zs \<and> inClass rs c"
    then obtain ys c zs where "s = ys @ c # zs" "inClass rs c" by blast
    then have "s = ys @ (c # zs) \<and> c # zs = [c] @ zs \<and> [c] = [c] \<and> inClass rs c" by simp
    then show "\<exists>u v. s = u @ v \<and> (\<exists>x y. v = x @ y \<and> (\<exists>c. x = [c] \<and> inClass rs c))"
      by blast
  qed
  also have "\<dots> \<longleftrightarrow> (\<exists>c \<in> set s. inClass rs c)"
    by (metis in_set_conv_decomp)
  finally show ?thesis by (simp add: list_ex_iff)
qed

section \<open>Gender: results\<close>

lemma ParseGender_IsValid: "IsValid (ParseGender unicodeLower s)"
  by (simp add: ParseGender_def IsValid_def Let_def)

lemma validateGender_None: "validateGender unicodeLower s = None"
  by (simp add: validateGender_def ParseGender_IsValid)

text \<open>
  C1. The claim wants \<^verbatim>\<open>validateGender\<close> to fail on a non-empty string that is
  none of male, female, unknown. On \<^verbatim>\<open>"xyz"\<close> the code returns \<^verbatim>\<open>nil\<close>:
  \<^verbatim>\<open>ParseGender\<close> sends every unrecognised string to \<^verbatim>\<open>GenderUnknown\<close>, which
  \<^verbatim>\<open>IsValid\<close> accepts, so the branch returning the error is never taken.
\<close>

theorem validateGender_xyz_accepted:
  "validateGender unicodeLower ''xyz'' = None"
  by (simp add: validateGender_def ParseGender_IsValid)

text \<open>
  C2. For every input string, \<^verbatim>\<open>ParseGender\<close> returns one of the three enum
  values and the result satisfies \<^verbatim>\<open>IsValid\<close>; it is male exactly when the
  lower-cased input is \<^verbatim>\<open>"male"\<close>, female exactly when it is \<^verbatim>\<open>"female"\<close>, and
  unknown on everything else, the empty string included. Nothing fails.
\<close>

theorem ParseGender_closed_enum:
  "ParseGender unicodeLower s \<in> {GenderMale, GenderFemale, GenderUnknown}
   \<and> IsValid (ParseGender unicodeLower s)
   \<and> (ParseGender unicodeLower s = GenderMale) = (ToLower unicodeLower s = ''male'')
   \<and> (ParseGender unicodeLower s = GenderFemale) = (ToLower unicodeLower s = ''female'')
   \<and> (ParseGender unicodeLower s = GenderUnknown)
       = (ToLower unicodeLower s \<noteq> ''male'' \<and> ToLower unicodeLower s \<noteq> ''female'')
   \<and> ParseGender unicodeLower '''' = GenderUnknown"
  by (simp add: ParseGender_def IsValid_def Let_def ToLower_def
      GenderMale_def GenderFemale_def GenderUnknown_def)

theorem ParseGender_closed_enum_witness:
  "ParseGender (\<lambda>s. s) ''MaLe'' = GenderMale
   \<and> ParseGender (\<lambda>s. s) ''FEMALE'' = GenderFemale
   \<and> ParseGender (\<lambda>s. s) ''robot'' = GenderUnknown
   \<and> IsValid (ParseGender (\<lambda>s. s) ''robot'')"
proof -
  have l1: "ToLower (\<lambda>s. s) ''MaLe'' = ''male''" by code_simp
  have l2: "ToLower (\<lambda>s. s) ''FEMALE'' = ''female''" by code_simp
  have l3: "ToLower (\<lambda>s. s) ''robot'' = ''robot''" by code_simp
  show ?thesis
    using ParseGender_closed_enum [of "\<lambda>s. s" "''MaLe''"]
      ParseGender_closed_enum [of "\<lambda>s. s" "''FEMALE''"]
      ParseGender_closed_enum [of "\<lambda>s. s" "''robot''"]
    by (simp add: l1 l2 l3 IsValid_def)
qed

section \<open>Validators: the code against the specification's words\<close>

lemma char_between_same: "(a \<le> c \<and> c \<le> a) = (c = a)" for a c :: char
  by auto

lemma inClass_username:
  "inClass [(CHR ''a'', CHR ''z''), (CHR ''A'', CHR ''Z''), (CHR ''0'', CHR ''9''),
            (CHR ''_'', CHR ''_''), (CHR ''-'', CHR ''-'')] = usernameChar"
  by (rule ext)
     (simp add: inClass_def usernameChar_def isLetter_def isLowerAZ_def isUpperAZ_def
        isDigit_def char_between_same)

lemma inClass_local:
  "inClass [(CHR ''a'', CHR ''z''), (CHR ''A'', CHR ''Z''), (CHR ''0'', CHR ''9''),
            (CHR ''.'', CHR ''.''), (CHR ''_'', CHR ''_''), (CHR ''%'', CHR ''%''),
            (CHR ''+'', CHR ''+''), (CHR ''-'', CHR ''-'')] = localChar"
  by (rule ext)
     (simp add: inClass_def localChar_def isLetter_def isLowerAZ_def isUpperAZ_def
        isDigit_def char_between_same)

lemma inClass_domain:
  "inClass [(CHR ''a'', CHR ''z''), (CHR ''A'', CHR ''Z''), (CHR ''0'', CHR ''9''),
            (CHR ''.'', CHR ''.''), (CHR ''-'', CHR ''-'')] = domainChar"
  by (rule ext)
     (simp add: inClass_def domainChar_def isLetter_def isLowerAZ_def isUpperAZ_def
        isDigit_def char_between_same)

lemma inClass_letter:
  "inClass [(CHR ''a'', CHR ''z''), (CHR ''A'', CHR ''Z'')] = isLetter"
  by (rule ext) (simp add: inClass_def isLetter_def isLowerAZ_def isUpperAZ_def)

lemma inClass_upper: "inClass [(CHR ''A'', CHR ''Z'')] = isUpperAZ"
  by (rule ext) (simp add: inClass_def isUpperAZ_def)

lemma inClass_lower: "inClass [(CHR ''a'', CHR ''z'')] = isLowerAZ"
  by (rule ext) (simp add: inClass_def isLowerAZ_def)

lemma inClass_digit: "inClass [(CHR ''0'', CHR ''9'')] = isDigit"
  by (rule ext) (simp add: inClass_def isDigit_def)

lemma MatchString_usernameRegex:
  "MatchString usernameRegex s \<longleftrightarrow> s \<noteq> [] \<and> list_all usernameChar s"
  unfolding usernameRegex_def MatchString_anchored
  by (simp add: lang_plus_class inClass_username)

lemma MatchString_emailRegex: "MatchString emailRegex s \<longleftrightarrow> emailRegexShape s"
proof -
  have "MatchString emailRegex s \<longleftrightarrow>
    (\<exists>l r1. s = l @ r1 \<and> (l \<noteq> [] \<and> list_all localChar l) \<and>
      (\<exists>a r2. r1 = a @ r2 \<and> a = ''@'' \<and>
        (\<exists>d r3. r2 = d @ r3 \<and> (d \<noteq> [] \<and> list_all domainChar d) \<and>
          (\<exists>p t. r3 = p @ t \<and> p = ''.'' \<and> 2 \<le> length t \<and> list_all isLetter t))))"
    unfolding emailRegex_def MatchString_anchored
    by (simp add: in_catL lang_plus_class lang_literal lang_repeat_class
        inClass_local inClass_domain inClass_letter)
  also have "\<dots> \<longleftrightarrow> emailRegexShape s"
    unfolding emailRegexShape_def by (intro iffI; elim exE conjE; simp; blast)
  finally show ?thesis .
qed

lemma validateUsername_iff:
  "validateUsername s = None \<longleftrightarrow> 3 \<le> length s \<and> length s \<le> 50 \<and> list_all usernameChar s"
  by (auto simp: validateUsername_def UsernameMinLength_def UsernameMaxLength_def
      MatchString_usernameRegex)

lemma validatePassword_iff:
  "validatePassword s = None \<longleftrightarrow>
     8 \<le> length s \<and> list_ex isUpperAZ s \<and> list_ex isLowerAZ s \<and> list_ex isDigit s"
  by (auto simp add: validatePassword_def PasswordMinLength_def Let_def MatchString_search_class
      inClass_upper inClass_lower inClass_digit simp del: MatchString.simps)

lemma validateEmail_iff:
  "validateEmail s = None \<longleftrightarrow> length s \<le> 100 \<and> emailRegexShape s"
  by (simp add: validateEmail_def EmailMaxLength_def MatchString_emailRegex)

section \<open>The specification's email pattern and the code's\<close>

lemma splitOn_nonempty: "splitOn sep r \<noteq> []"
  by (induction r) (auto split: list.splits)

lemma splitOn_single: "length (splitOn sep r) = 1 \<Longrightarrow> splitOn sep r = [r]"
proof (induction r)
  case Nil
  show ?case by simp
next
  case (Cons c cs)
  obtain piece pieces where S: "splitOn sep cs = piece # pieces"
    using splitOn_nonempty [of sep cs] by (cases "splitOn sep cs") auto
  show ?case
  proof (cases "c = sep")
    case True
    with Cons.prems S show ?thesis by simp
  next
    case False
    with Cons.prems S have "pieces = []" by simp
    with S Cons.IH have "splitOn sep cs = [cs]" by simp
    with False show ?thesis by simp
  qed
qed

lemma splitOn_last_dot:
  assumes "2 \<le> length (splitOn sep r)" and "Q sep"
    and "\<forall>l \<in> set (butlast (splitOn sep r)). list_all Q l"
  shows "\<exists>d. r = d @ sep # last (splitOn sep r) \<and> list_all Q d
           \<and> (d = [] \<longrightarrow> hd (splitOn sep r) = [])"
  using assms
proof (induction r)
  case Nil
  then show ?case by simp
next
  case (Cons c cs)
  obtain piece pieces where S: "splitOn sep cs = piece # pieces"
    using splitOn_nonempty [of sep cs] by (cases "splitOn sep cs") auto
  show ?case
  proof (cases "c = sep")
    case True
    show ?thesis
    proof (cases "pieces = []")
      case True
      with S have "length (splitOn sep cs) = 1" by simp
      then have "splitOn sep cs = [cs]" by (rule splitOn_single)
      with \<open>c = sep\<close> show ?thesis by simp
    next
      case False
      with S have two: "2 \<le> length (splitOn sep cs)" by (cases pieces) simp_all
      from Cons.prems(3) \<open>c = sep\<close> S False
      have "\<forall>l \<in> set (butlast (splitOn sep cs)). list_all Q l" by simp
      from Cons.IH [OF two Cons.prems(2) this]
      obtain d where d: "cs = d @ sep # last (splitOn sep cs)" "list_all Q d" by blast
      from d S False \<open>c = sep\<close> Cons.prems(2)
      have "c # cs = (sep # d) @ sep # last (splitOn sep (c # cs)) \<and> list_all Q (sep # d)"
        by simp
      then show ?thesis by blast
    qed
  next
    case False
    with Cons.prems(1) S have ne: "pieces \<noteq> []" by auto
    with S have two: "2 \<le> length (splitOn sep cs)" by (cases pieces) simp_all
    from Cons.prems(3) False S ne
    have Qc: "Q c" and "\<forall>l \<in> set (butlast (splitOn sep cs)). list_all Q l" by simp_all
    from Cons.IH [OF two Cons.prems(2) this(2)]
    obtain d where d: "cs = d @ sep # last (splitOn sep cs)" "list_all Q d" by blast
    from d S ne False Qc
    have "c # cs = (c # d) @ sep # last (splitOn sep (c # cs)) \<and> list_all Q (c # d)"
      by simp
    then show ?thesis by blast
  qed
qed

lemma labelChar_domainChar: "labelChar c \<Longrightarrow> domainChar c"
  by (auto simp: labelChar_def domainChar_def)

lemma at_split:
  assumes "sep \<in> set s"
  shows "s = takeWhile (\<lambda>c. c \<noteq> sep) s @ sep # tl (dropWhile (\<lambda>c. c \<noteq> sep) s)"
proof -
  let ?P = "\<lambda>c. c \<noteq> sep"
  from assms have ne: "dropWhile ?P s \<noteq> []" by (simp add: dropWhile_eq_Nil_conv)
  then have "\<not> ?P (hd (dropWhile ?P s))" by (rule hd_dropWhile)
  then have "hd (dropWhile ?P s) = sep" by simp
  moreover from ne have "hd (dropWhile ?P s) # tl (dropWhile ?P s) = dropWhile ?P s"
    by (rule list.collapse)
  ultimately have "dropWhile ?P s = sep # tl (dropWhile ?P s)" by simp
  then have "takeWhile ?P s @ sep # tl (dropWhile ?P s) = takeWhile ?P s @ dropWhile ?P s"
    by simp
  then show ?thesis by simp
qed

text \<open>Every string of the specification's pattern has the shape the code accepts.\<close>

lemma specEmailPattern_regex:
  assumes "specEmailPattern s"
  shows "emailRegexShape s"
proof -
  let ?local = "takeWhile (\<lambda>c. c \<noteq> CHR ''@'') s"
  let ?rest = "tl (dropWhile (\<lambda>c. c \<noteq> CHR ''@'') s)"
  let ?labels = "splitOn CHR ''.'' ?rest"
  from assms have at: "CHR ''@'' \<in> set s"
    and loc: "?local \<noteq> []" "list_all localChar ?local"
    and two: "2 \<le> length ?labels"
    and labels: "list_all (\<lambda>label. label \<noteq> [] \<and> list_all labelChar label) (butlast ?labels)"
    and tld: "2 \<le> length (last ?labels)" "list_all isLetter (last ?labels)"
    by (simp_all add: specEmailPattern_def Let_def)
  from labels have dom: "\<forall>l \<in> set (butlast ?labels). list_all domainChar l"
    by (auto simp: list_all_iff labelChar_domainChar)
  have dot: "domainChar CHR ''.''" by (simp add: domainChar_def)
  from splitOn_last_dot [OF two, of domainChar, OF dot dom]
  obtain d where d: "?rest = d @ CHR ''.'' # last ?labels" "list_all domainChar d"
    "d = [] \<longrightarrow> hd ?labels = []" by blast
  from two obtain first others where fo: "?labels = first # others" "others \<noteq> []"
    by (cases ?labels; cases "tl ?labels") auto
  with labels have "first \<noteq> []" by simp
  with fo d(3) have "d \<noteq> []" by auto
  from at_split [OF at] d(1)
  have "s = ?local @ ''@'' @ d @ ''.'' @ last ?labels" by simp
  with loc \<open>d \<noteq> []\<close> d(2) tld show ?thesis
    unfolding emailRegexShape_def by blast
qed

section \<open>Validators and responses: the claims\<close>

text \<open>
  C6, as the claim states it, fails: \<^verbatim>\<open>a@b..com\<close> has 8 bytes and is not of the
  pattern of the specification, its domain \<^verbatim>\<open>b.\<close> holding an empty label, yet
  \<^verbatim>\<open>validateEmail\<close> returns no error on it.
\<close>

theorem validateEmail_counterexample:
  "length ''a@b..com'' \<le> 100
   \<and> \<not> specEmailPattern ''a@b..com''
   \<and> validateEmail ''a@b..com'' = None"
  by code_simp

text \<open>
  C6, as the code has it. For every string, \<^verbatim>\<open>validateEmail\<close> fails with "email is
  too long" exactly when the string has more than 100 bytes; otherwise it fails with
  "invalid email format" exactly when the string is not a non-empty local part over
  \<^verbatim>\<open>[A-Za-z0-9._%+-]\<close>, an at sign, a non-empty string over \<^verbatim>\<open>[A-Za-z0-9.-]\<close>, a dot
  and a final label of at least two letters; otherwise it succeeds. Between the at
  sign and the last dot, dots may stand anywhere, so a label there may be empty.
\<close>

theorem validateEmail_spec:
  "validateEmail s =
     (if 100 < length s then Some ''email is too long''
      else if \<not> emailRegexShape s then Some ''invalid email format''
      else None)"
  by (simp add: validateEmail_def EmailMaxLength_def MatchString_emailRegex)

theorem validateEmail_spec_witness:
  "validateEmail (replicate 101 CHR ''a'') = Some ''email is too long''
   \<and> validateEmail ''not-an-email'' = Some ''invalid email format''
   \<and> \<not> emailRegexShape ''not-an-email''
   \<and> validateEmail ''alice@example.org'' = None
   \<and> emailRegexShape ''alice@example.org''"
proof -
  have bad: "validateEmail ''not-an-email'' = Some ''invalid email format''"
    by code_simp
  have good: "validateEmail ''alice@example.org'' = None"
    by code_simp
  show ?thesis
    using validateEmail_spec [of "replicate 101 CHR ''a''"]
      validateEmail_spec [of "''not-an-email''"] bad
      validateEmail_spec [of "''alice@example.org''"] good
    by (simp split: if_splits)
qed

text \<open>
  C7. The validator of a create request returns the first failure among the checks
  of username, email, gender and password, in that order. The validator of an
  update request does the same over the checks of the fields that are present, and a
  request with every field absent validates.
\<close>

theorem Validate_first_failure:
  "UserCreateRequest_Validate lower ucr =
     firstFailure
       [fieldCheck ''username'' (validateUsername (UserCreateRequest.Username ucr)),
        fieldCheck ''email'' (validateEmail (UserCreateRequest.Email ucr)),
        fieldCheck ''gender'' (validateGender lower (UserCreateRequest.Gender ucr)),
        fieldCheck ''password'' (validatePassword (UserCreateRequest.Password ucr))]
   \<and> UserUpdateRequest_Validate lower uur =
     firstFailure
       [fieldCheck ''username'' (whenPresent validateUsername (UserUpdateRequest.Username uur)),
        fieldCheck ''email'' (whenPresent validateEmail (UserUpdateRequest.Email uur)),
        fieldCheck ''gender'' (whenPresent (validateGender lower) (UserUpdateRequest.Gender uur)),
        fieldCheck ''password'' (whenPresent validatePassword (UserUpdateRequest.Password uur))]
   \<and> UserUpdateRequest_Validate lower
        \<lparr>UserUpdateRequest.Username = None, Email = None, Gender = None, Password = None\<rparr> = None"
  by (simp add: UserCreateRequest_Validate_def UserUpdateRequest_Validate_def
      fieldCheck_def whenPresent_def split: option.splits)

theorem Validate_first_failure_witness:
  "UserCreateRequest_Validate (\<lambda>s. s)
      \<lparr>UserCreateRequest.Username = ''ab'', Email = ''not-an-email'', Gender = '''',
       Password = ''short''\<rparr>
     = Some ''username validation failed: username is too short''
   \<and> UserCreateRequest_Validate (\<lambda>s. s)
      \<lparr>UserCreateRequest.Username = ''alice'', Email = ''not-an-email'', Gender = '''',
       Password = ''short''\<rparr>
     = Some ''email validation failed: invalid email format''
   \<and> UserUpdateRequest_Validate (\<lambda>s. s)
      \<lparr>UserUpdateRequest.Username = None, Email = None, Gender = None,
       Password = Some ''short''\<rparr>
     = Some ''password validation failed: password is too short''"
proof -
  have u1: "validateUsername ''ab'' = Some ''username is too short''" by code_simp
  have u2: "validateUsername ''alice'' = None" by code_simp
  have e: "validateEmail ''not-an-email'' = Some ''invalid email format''" by code_simp
  have p: "validatePassword ''short'' = Some ''password is too short''" by code_simp
  show ?thesis
    using Validate_first_failure [of "\<lambda>s. s"
        "\<lparr>UserCreateRequest.Username = ''ab'', Email = ''not-an-email'', Gender = '''',
          Password = ''short''\<rparr>"]
      Validate_first_failure [of "\<lambda>s. s"
        "\<lparr>UserCreateRequest.Username = ''alice'', Email = ''not-an-email'', Gender = '''',
          Password = ''short''\<rparr>"]
      Validate_first_failure [of "\<lambda>s. s" _
        "\<lparr>UserUpdateRequest.Username = None, Email = None, Gender = None,
          Password = Some ''short''\<rparr>"]
    by (simp add: u1 u2 e p fieldCheck_def whenPresent_def)
qed

text \<open>
  C8. A create request whose username has 3 to 50 characters, all in
  \<^verbatim>\<open>[A-Za-z0-9_-]\<close>, whose email has at most 100 bytes and the shape the code
  accepts, which every email of the specification's pattern has
  (\<open>specEmailPattern_regex\<close>), and whose password has at least 8 characters with an
  upper-case letter, a lower-case letter and a digit among them, validates, whatever
  its gender.
\<close>

theorem valid_create_request_accepted:
  assumes "3 \<le> length (UserCreateRequest.Username ucr)"
    and "length (UserCreateRequest.Username ucr) \<le> 50"
    and "list_all usernameChar (UserCreateRequest.Username ucr)"
    and "emailRegexShape (UserCreateRequest.Email ucr)"
    and "length (UserCreateRequest.Email ucr) \<le> 100"
    and "8 \<le> length (UserCreateRequest.Password ucr)"
    and "list_ex isUpperAZ (UserCreateRequest.Password ucr)"
    and "list_ex isLowerAZ (UserCreateRequest.Password ucr)"
    and "list_ex isDigit (UserCreateRequest.Password ucr)"
  shows "UserCreateRequest_Validate lower ucr = None"
proof -
  have "validateUsername (UserCreateRequest.Username ucr) = None"
    using assms(1-3) by (simp add: validateUsername_iff)
  moreover have "validateEmail (UserCreateRequest.Email ucr) = None"
    using assms(4,5) by (simp add: validateEmail_iff)
  moreover have "validatePassword (UserCreateRequest.Password ucr) = None"
    using assms(6-9) by (simp add: validatePassword_iff)
  ultimately show ?thesis
    by (simp add: UserCreateRequest_Validate_def validateGender_None)
qed

theorem valid_create_request_accepted_witness:
  "UserCreateRequest_Validate (\<lambda>s. s)
     \<lparr>UserCreateRequest.Username = ''alice_01'', Email = ''alice@example.org'',
      Gender = ''female'', Password = ''Passw0rd''\<rparr> = None"
proof -
  have shape: "emailRegexShape ''alice@example.org''"
    unfolding emailRegexShape_def
    by (intro exI [of _ "''alice''"] exI [of _ "''example''"] exI [of _ "''org''"])
       code_simp
  have name: "list_all usernameChar ''alice_01''" by code_simp
  have up: "list_ex isUpperAZ ''Passw0rd''" by code_simp
  have lo: "list_ex isLowerAZ ''Passw0rd''" by code_simp
  have di: "list_ex isDigit ''Passw0rd''" by code_simp
  show ?thesis
    using shape name up lo di
      valid_create_request_accepted [of
        "\<lparr>UserCreateRequest.Username = ''alice_01'', Email = ''alice@example.org'',
          Gender = ''female'', Password = ''Passw0rd''\<rparr>" "\<lambda>s. s"]
    by simp
qed

text \<open>
  C9. Two users that agree on every field but the password hash have the same
  client-facing representation: \<^verbatim>\<open>ToResponse\<close> gives the same value, and so do its
  JSON form and the JSON form of the user itself.
\<close>

theorem ToResponse_hides_PasswordHash:
  assumes "User.ID u1 = User.ID u2"
    and "User.Username u1 = User.Username u2"
    and "User.Email u1 = User.Email u2"
    and "User.Gender u1 = User.Gender u2"
    and "User.CreatedAt u1 = User.CreatedAt u2"
    and "User.UpdatedAt u1 = User.UpdatedAt u2"
  shows "ToResponse u1 = ToResponse u2
    \<and> UserResponse_json (ToResponse u1) = UserResponse_json (ToResponse u2)
    \<and> User_json u1 = User_json u2"
  using assms by (simp add: ToResponse_def User_json_def)

theorem ToResponse_hides_PasswordHash_witness:
  "ToResponse \<lparr>User.ID = 7, Username = ''alice'', Email = ''alice@example.org'',
       Gender = ''female'', PasswordHash = ''hash-one'', CreatedAt = 10, UpdatedAt = 20\<rparr>
   = ToResponse \<lparr>User.ID = 7, Username = ''alice'', Email = ''alice@example.org'',
       Gender = ''female'', PasswordHash = ''hash-two'', CreatedAt = 10, UpdatedAt = 20\<rparr>
   \<and> User_json \<lparr>User.ID = 7, Username = ''alice'', Email = ''alice@example.org'',
       Gender = ''female'', PasswordHash = ''hash-one'', CreatedAt = 10, UpdatedAt = 20\<rparr>
   = User_json \<lparr>User.ID = 7, Username = ''alice'', Email = ''alice@example.org'',
       Gender = ''female'', PasswordHash = ''hash-two'', CreatedAt = 10, UpdatedAt = 20\<rparr>"
  using ToResponse_hides_PasswordHash
    [of "\<lparr>User.ID = 7, Username = ''alice'', Email = ''alice@example.org'',
       Gender = ''female'', PasswordHash = ''hash-one'', CreatedAt = 10, UpdatedAt = 20\<rparr>"
        "\<lparr>User.ID = 7, Username = ''alice'', Email = ''alice@example.org'',
       Gender = ''female'', PasswordHash = ''hash-two'', CreatedAt = 10, UpdatedAt = 20\<rparr>"]
  by simp

section \<open>Login and the authentication gate\<close>

lemma SplitN_two:
  "SplitN h sep 2 =
     (if sep \<in> set h
      then [takeWhile (\<lambda>c. c \<noteq> sep) h, tl (dropWhile (\<lambda>c. c \<noteq> sep) h)]
      else [h])"
  by (simp add: numeral_2_eq_2)

lemma SplitN_bearer: "SplitN (''Bearer '' @ v) CHR '' '' 2 = [''Bearer'', v]"
  by (simp add: SplitN_two)

lemma SplitN_two_parts:
  assumes "SplitN h sep 2 = [a, b]"
  shows "h = a @ sep # b"
proof -
  let ?P = "\<lambda>c. c \<noteq> sep"
  from assms have mem: "sep \<in> set h" and a: "a = takeWhile ?P h" and b: "b = tl (dropWhile ?P h)"
    by (auto simp: SplitN_two split: if_splits)
  from mem have ne: "dropWhile ?P h \<noteq> []" by (simp add: dropWhile_eq_Nil_conv)
  then have "\<not> ?P (hd (dropWhile ?P h))" by (rule hd_dropWhile)
  then have "hd (dropWhile ?P h) = sep" by simp
  moreover from ne have "hd (dropWhile ?P h) # tl (dropWhile ?P h) = dropWhile ?P h"
    by (rule list.collapse)
  ultimately have "dropWhile ?P h = sep # b" unfolding b by simp
  then have "takeWhile ?P h @ sep # b = h"
    using takeWhile_dropWhile_id [of ?P h] by simp
  with a show ?thesis by simp
qed

lemma bearer_parts:
  "(length (SplitN h CHR '' '' 2) \<noteq> 2 \<or> SplitN h CHR '' '' 2 ! 0 \<noteq> ''Bearer'') \<longleftrightarrow> \<not> bearerShape h"
proof
  assume "\<not> bearerShape h"
  show "length (SplitN h CHR '' '' 2) \<noteq> 2 \<or> SplitN h CHR '' '' 2 ! 0 \<noteq> ''Bearer''"
  proof (rule ccontr)
    assume "\<not> ?thesis"
    then have len: "length (SplitN h CHR '' '' 2) = 2" and hd: "SplitN h CHR '' '' 2 ! 0 = ''Bearer''"
      by simp_all
    from len obtain a b where ab: "SplitN h CHR '' '' 2 = [a, b]"
      by (auto simp: SplitN_two split: if_splits)
    with hd have "a = ''Bearer''" by simp
    with SplitN_two_parts [OF ab] have "h = ''Bearer '' @ b" by simp
    with \<open>\<not> bearerShape h\<close> show False by (auto simp: bearerShape_def)
  qed
next
  assume l: "length (SplitN h CHR '' '' 2) \<noteq> 2 \<or> SplitN h CHR '' '' 2 ! 0 \<noteq> ''Bearer''"
  show "\<not> bearerShape h"
  proof
    assume "bearerShape h"
    then obtain v where "h = ''Bearer '' @ v" by (auto simp: bearerShape_def)
    then have "SplitN h CHR '' '' 2 = [''Bearer'', v]" by (simp only: SplitN_bearer)
    with l show False by simp
  qed
qed

section \<open>Login and the gate: the claims\<close>

text \<open>
  C4. A login for an email that no row of the table has, and a login for an email
  that a row has but with a password that does not match its hash, write the same
  response: 401 with the one message "Invalid email or password".
\<close>

theorem ActionLogin_generic_failure:
  assumes "\<forall>row \<in> set tbl1. User.Email row \<noteq> UserLoginRequest.Email req"
    and "GetByEmail (driver env2) tbl2 (UserLoginRequest.Email req) = Inr user"
    and "bcryptCompare env2 (User.PasswordHash user) (UserLoginRequest.Password req) \<noteq> None"
  shows "ActionLogin env1 tbl1 (Inr req) ctx =
           JSON ctx StatusUnauthorized (JObject [(''error'', JString ''Invalid email or password'')])
       \<and> ActionLogin env2 tbl2 (Inr req) ctx = ActionLogin env1 tbl1 (Inr req) ctx"
proof -
  from assms(1) have "find (\<lambda>row. User.Email row = UserLoginRequest.Email req) tbl1 = None"
    by (simp add: find_None_iff)
  then have "\<exists>err. GetByEmail (driver env1) tbl1 (UserLoginRequest.Email req) = Inl err"
    by (simp add: GetByEmail_def split: option.splits)
  then have one: "ActionLogin env1 tbl1 (Inr req) ctx =
      JSON ctx StatusUnauthorized (JObject [(''error'', JString ''Invalid email or password'')])"
    by (auto simp: ActionLogin_def)
  from assms(3) have "CheckPassword (bcryptCompare env2) (UserLoginRequest.Password req)
      (User.PasswordHash user) = Some ''invalid password''"
    by (auto simp: CheckPassword_def split: option.splits)
  with assms(2) have two: "ActionLogin env2 tbl2 (Inr req) ctx =
      JSON ctx StatusUnauthorized (JObject [(''error'', JString ''Invalid email or password'')])"
    by (simp add: ActionLogin_def)
  from one two show ?thesis by simp
qed

theorem ActionLogin_generic_failure_witness:
  "ActionLogin sampleEnv [bob]
      (Inr \<lparr>UserLoginRequest.Email = ''alice@example.org'', Password = ''guess''\<rparr>) (request None)
   = ActionLogin sampleEnv [alice, bob]
      (Inr \<lparr>UserLoginRequest.Email = ''alice@example.org'', Password = ''guess''\<rparr>) (request None)
   \<and> Written (ActionLogin sampleEnv [bob]
      (Inr \<lparr>UserLoginRequest.Email = ''alice@example.org'', Password = ''guess''\<rparr>) (request None))
   = [(401, JObject [(''error'', JString ''Invalid email or password'')])]"
proof -
  let ?req = "\<lparr>UserLoginRequest.Email = ''alice@example.org'', Password = ''guess''\<rparr>"
  have a: "\<forall>row \<in> set [bob]. User.Email row \<noteq> UserLoginRequest.Email ?req"
    by (simp add: bob_def)
  have b: "GetByEmail (driver sampleEnv) [alice, bob] (UserLoginRequest.Email ?req) = Inr alice"
    by (simp add: GetByEmail_def sampleEnv_def alice_def)
  have c: "bcryptCompare sampleEnv (User.PasswordHash alice) (UserLoginRequest.Password ?req) \<noteq> None"
    by (simp add: sampleEnv_def alice_def)
  show ?thesis
    using ActionLogin_generic_failure [OF a b c, of sampleEnv "request None"]
    by (simp add: JSON_def request_def StatusUnauthorized_def)
qed

text \<open>
  C5. The gate ends in exactly one of four ways. With no Authorization header it
  writes 401 "Authorization header is required"; with a header that is not of the
  shape \<^verbatim>\<open>Bearer <value>\<close> it writes 401 "Invalid authorization header format";
  with a value that the token check rejects it writes 401 "Invalid or expired
  token"; in these three cases it aborts and the handlers that follow are not run.
  With a value that the token check accepts it stores the user id, the username and
  the email of the claims in the context and runs the handlers that follow on it.
\<close>

theorem AuthMiddleware_gate:
  "(GetHeader c ''Authorization'' = '''' \<longrightarrow>
      AuthMiddleware validate m Next c =
        Abort (JSON c StatusUnauthorized
          (JObject [(''error'', JString ''Authorization header is required'')])))
   \<and> (GetHeader c ''Authorization'' \<noteq> '''' \<and> \<not> bearerShape (GetHeader c ''Authorization'') \<longrightarrow>
      AuthMiddleware validate m Next c =
        Abort (JSON c StatusUnauthorized
          (JObject [(''error'', JString ''Invalid authorization header format'')])))
   \<and> (\<forall>v err. GetHeader c ''Authorization'' = ''Bearer '' @ v \<and> validate m v = Inl err \<longrightarrow>
      AuthMiddleware validate m Next c =
        Abort (JSON c StatusUnauthorized
          (JObject [(''error'', JString ''Invalid or expired token'')])))
   \<and> (\<forall>v claims. GetHeader c ''Authorization'' = ''Bearer '' @ v \<and> validate m v = Inr claims \<longrightarrow>
      (\<exists>c'. AuthMiddleware validate m Next c = Next c'
         \<and> GetUserID c' = (Claims.UserID claims, True)
         \<and> GetUsername c' = (Claims.Username claims, True)
         \<and> GetEmail c' = (Claims.Email claims, True)
         \<and> Header c' = Header c \<and> Written c' = Written c \<and> Aborted c' = Aborted c))"
proof (intro conjI impI allI)
  assume "GetHeader c ''Authorization'' = ''''"
  then show "AuthMiddleware validate m Next c =
      Abort (JSON c StatusUnauthorized
        (JObject [(''error'', JString ''Authorization header is required'')]))"
    by (simp add: AuthMiddleware_def)
next
  assume "GetHeader c ''Authorization'' \<noteq> '''' \<and> \<not> bearerShape (GetHeader c ''Authorization'')"
  then show "AuthMiddleware validate m Next c =
      Abort (JSON c StatusUnauthorized
        (JObject [(''error'', JString ''Invalid authorization header format'')]))"
    using bearer_parts [of "GetHeader c ''Authorization''"]
    by (simp add: AuthMiddleware_def Let_def)
next
  fix v err
  assume h: "GetHeader c ''Authorization'' = ''Bearer '' @ v \<and> validate m v = Inl err"
  then have "SplitN (GetHeader c ''Authorization'') CHR '' '' 2 = [''Bearer'', v]"
    by (simp only: SplitN_bearer)
  with h show "AuthMiddleware validate m Next c =
      Abort (JSON c StatusUnauthorized
        (JObject [(''error'', JString ''Invalid or expired token'')]))"
    by (simp add: AuthMiddleware_def Let_def)
next
  fix v claims
  assume h: "GetHeader c ''Authorization'' = ''Bearer '' @ v \<and> validate m v = Inr claims"
  let ?c' = "Set (Set (Set c ''user_id'' (AnyInt (Claims.UserID claims)))
                  ''username'' (AnyString (Claims.Username claims)))
                  ''email'' (AnyString (Claims.Email claims))"
  from h have "SplitN (GetHeader c ''Authorization'') CHR '' '' 2 = [''Bearer'', v]"
    by (simp only: SplitN_bearer)
  with h have "AuthMiddleware validate m Next c = Next ?c'"
    by (simp add: AuthMiddleware_def Let_def)
  moreover have "GetUserID ?c' = (Claims.UserID claims, True)"
    "GetUsername ?c' = (Claims.Username claims, True)"
    "GetEmail ?c' = (Claims.Email claims, True)"
    "Header ?c' = Header c" "Written ?c' = Written c" "Aborted ?c' = Aborted c"
    by (simp_all add: Set_def GetUserID_def GetUsername_def GetEmail_def)
  ultimately show "\<exists>c'. AuthMiddleware validate m Next c = Next c'
         \<and> GetUserID c' = (Claims.UserID claims, True)
         \<and> GetUsername c' = (Claims.Username claims, True)
         \<and> GetEmail c' = (Claims.Email claims, True)
         \<and> Header c' = Header c \<and> Written c' = Written c \<and> Aborted c' = Aborted c"
    by blast
qed

theorem AuthMiddleware_gate_witness:
  "Aborted (AuthMiddleware (ValidateToken sampleEnv) sampleManager (\<lambda>c. JSON c StatusOK JNull) (request None))
   \<and> Written (AuthMiddleware (ValidateToken sampleEnv) sampleManager (\<lambda>c. JSON c StatusOK JNull) (request None))
       = [(401, JObject [(''error'', JString ''Authorization header is required'')])]
   \<and> Written (AuthMiddleware (ValidateToken sampleEnv) sampleManager (\<lambda>c. JSON c StatusOK JNull)
         (request (Some ''Basic abc'')))
       = [(401, JObject [(''error'', JString ''Invalid authorization header format'')])]
   \<and> Written (AuthMiddleware (ValidateToken sampleEnv) sampleManager (\<lambda>c. JSON c StatusOK JNull)
         (request (Some ''Bearer stale'')))
       = [(401, JObject [(''error'', JString ''Invalid or expired token'')])]
   \<and> GetUserID (AuthMiddleware (ValidateToken sampleEnv) sampleManager (\<lambda>c. c)
         (request (Some ''Bearer good''))) = (1, True)"
proof -
  let ?V = "ValidateToken sampleEnv"
  let ?N = "\<lambda>c. JSON c StatusOK JNull"
  have h0: "GetHeader (request None) ''Authorization'' = ''''"
    by (simp add: GetHeader_def request_def)
  have h1: "GetHeader (request (Some ''Basic abc'')) ''Authorization'' \<noteq> ''''
      \<and> \<not> bearerShape (GetHeader (request (Some ''Basic abc'')) ''Authorization'')"
    by (simp add: GetHeader_def request_def bearerShape_def)
  have h2: "GetHeader (request (Some ''Bearer stale'')) ''Authorization'' = ''Bearer '' @ ''stale''
      \<and> ?V sampleManager ''stale'' = Inl ''token is expired''"
    by (simp add: GetHeader_def request_def sampleEnv_def)
  have h3: "GetHeader (request (Some ''Bearer good'')) ''Authorization'' = ''Bearer '' @ ''good''
      \<and> ?V sampleManager ''good'' = Inr \<lparr>Claims.UserID = 1, Username = ''alice'', Email = ''alice@example.org'',
                   IssuedAt = 1000, ExpiresAt = 2000\<rparr>"
    by (simp add: GetHeader_def request_def sampleEnv_def)
  have g0: "AuthMiddleware ?V sampleManager ?N (request None) =
      Abort (JSON (request None) StatusUnauthorized
        (JObject [(''error'', JString ''Authorization header is required'')]))"
    using AuthMiddleware_gate [of "request None" ?V sampleManager ?N] h0 by blast
  have g1: "AuthMiddleware ?V sampleManager ?N (request (Some ''Basic abc'')) =
      Abort (JSON (request (Some ''Basic abc'')) StatusUnauthorized
        (JObject [(''error'', JString ''Invalid authorization header format'')]))"
    using AuthMiddleware_gate [of "request (Some ''Basic abc'')" ?V sampleManager ?N] h1 by blast
  have g2: "AuthMiddleware ?V sampleManager ?N (request (Some ''Bearer stale'')) =
      Abort (JSON (request (Some ''Bearer stale'')) StatusUnauthorized
        (JObject [(''error'', JString ''Invalid or expired token'')]))"
    using AuthMiddleware_gate [of "request (Some ''Bearer stale'')" ?V sampleManager ?N] h2 by blast
  have g3: "GetUserID (AuthMiddleware ?V sampleManager (\<lambda>c. c) (request (Some ''Bearer good''))) = (1, True)"
    using AuthMiddleware_gate [of "request (Some ''Bearer good'')" ?V sampleManager "\<lambda>c. c"] h3 by fastforce
  show ?thesis
    unfolding g0 g1 g2 g3
    by (simp add: Abort_def JSON_def request_def StatusUnauthorized_def)
qed

section \<open>Profile update: what the handler writes to the table\<close>

lemma GetByID_found:
  assumes "GetByID drv tbl uid = Inr user"
  shows "user \<in> set tbl \<and> User.ID user = uid"
proof -
  from assms have "find (\<lambda>row. User.ID row = uid) tbl = Some user"
    by (simp add: GetByID_def split: option.splits)
  then show ?thesis
    by (auto simp: find_Some_iff)
qed

lemma Update_table:
  assumes "Update drv now tbl user = (err, user', tbl')"
  shows "tbl' = tbl \<or> tbl' = map (setRow (BeforeUpdate now user)) tbl"
  using assms by (auto simp: Update_def Let_def split: option.splits if_splits)

text \<open>The handler either leaves the table as it was, or overwrites the rows of one id
  with a user that differs from the one it read only in the fields the request
  carries and in the time of the update.\<close>

lemma ActionUpdateProfile_table:
  assumes "ActionUpdateProfile env (Inr req) tbl ctx = (ctx', tbl')"
  shows "tbl' = tbl \<or>
    (\<exists>user u. GetByID (driver env) tbl (fst (GetUserID ctx)) = Inr user
      \<and> tbl' = map (setRow u) tbl
      \<and> User.ID u = User.ID user
      \<and> (UserUpdateRequest.Username req = None \<longrightarrow> User.Username u = User.Username user)
      \<and> (UserUpdateRequest.Email req = None \<longrightarrow> User.Email u = User.Email user)
      \<and> (UserUpdateRequest.Gender req = None \<longrightarrow> User.Gender u = User.Gender user)
      \<and> (UserUpdateRequest.Password req = None \<longrightarrow> User.PasswordHash u = User.PasswordHash user))"
  using assms
  by (auto simp: ActionUpdateProfile_def BeforeUpdate_def Let_def
      dest!: Update_table
      split: prod.splits if_splits sum.splits option.splits)

lemma setRow_frame:
  "User.ID (setRow u row) = User.ID row"
  "User.CreatedAt (setRow u row) = User.CreatedAt row"
  "User.ID row \<noteq> User.ID u \<Longrightarrow> setRow u row = row"
  by (simp_all add: setRow_def)

lemma setRow_same_id:
  "User.ID row = User.ID u \<Longrightarrow>
     User.Username (setRow u row) = User.Username u
     \<and> User.Email (setRow u row) = User.Email u
     \<and> User.Gender (setRow u row) = User.Gender u
     \<and> User.PasswordHash (setRow u row) = User.PasswordHash u"
  by (simp add: setRow_def)

lemma primary_key:
  assumes "distinct (map User.ID tbl)" and "a \<in> set tbl" and "b \<in> set tbl"
    and "User.ID a = User.ID b"
  shows "a = b"
  using assms by (meson distinct_map inj_on_eq_iff)

text \<open>
  C10. An update of the profile of the authenticated user leaves every row of the
  table in place with its id and its creation time; it leaves the rows of the other
  users as they were; and in the row of the user, the username, the email, the gender
  and the password hash are unchanged whenever the corresponding field of the
  request is absent. Ids are the primary key of the table: no two rows share one.
\<close>

theorem ActionUpdateProfile_frame:
  assumes "distinct (map User.ID tbl)"
    and "GetUserID ctx = (uid, True)"
    and "ActionUpdateProfile env (Inr req) tbl ctx = (ctx', tbl')"
  shows "list_all2 (\<lambda>row row'.
      User.ID row' = User.ID row
    \<and> User.CreatedAt row' = User.CreatedAt row
    \<and> (User.ID row \<noteq> uid \<longrightarrow> row' = row)
    \<and> (UserUpdateRequest.Username req = None \<longrightarrow> User.Username row' = User.Username row)
    \<and> (UserUpdateRequest.Email req = None \<longrightarrow> User.Email row' = User.Email row)
    \<and> (UserUpdateRequest.Gender req = None \<longrightarrow> User.Gender row' = User.Gender row)
    \<and> (UserUpdateRequest.Password req = None \<longrightarrow> User.PasswordHash row' = User.PasswordHash row))
    tbl tbl'"
    (is "list_all2 ?frame tbl tbl'")
proof -
  from ActionUpdateProfile_table [OF assms(3)] show ?thesis
  proof (elim disjE exE conjE)
    assume "tbl' = tbl"
    then show ?thesis by (simp add: list_all2_same)
  next
    fix user u
    assume read: "GetByID (driver env) tbl (fst (GetUserID ctx)) = Inr user"
      and tbl': "tbl' = map (setRow u) tbl"
      and id: "User.ID u = User.ID user"
      and kept: "UserUpdateRequest.Username req = None \<longrightarrow> User.Username u = User.Username user"
        "UserUpdateRequest.Email req = None \<longrightarrow> User.Email u = User.Email user"
        "UserUpdateRequest.Gender req = None \<longrightarrow> User.Gender u = User.Gender user"
        "UserUpdateRequest.Password req = None \<longrightarrow> User.PasswordHash u = User.PasswordHash user"
    from read assms(2) have user: "user \<in> set tbl" "User.ID user = uid"
      using GetByID_found [of "driver env" tbl uid user] by simp_all
    have "?frame row (setRow u row)" if "row \<in> set tbl" for row
    proof (cases "User.ID row = uid")
      case False
      with id user(2) show ?thesis by (simp add: setRow_frame)
    next
      case True
      with user have "row = user"
        using primary_key [OF assms(1) that user(1)] by simp
      with id kept user(2) show ?thesis
        using setRow_same_id [of user u] by (simp add: setRow_frame)
    qed
    then show ?thesis
      by (simp add: tbl' list_all2_map2 list_all2_same)
  qed
qed

theorem ActionUpdateProfile_frame_witness:
  "snd (ActionUpdateProfile sampleEnv
         (Inr \<lparr>UserUpdateRequest.Username = None, Email = None, Gender = Some ''Male'',
               Password = None\<rparr>)
         [alice, bob] (Set (request None) ''user_id'' (AnyInt 1)))
     = [alice\<lparr>User.Gender := ''male'', User.UpdatedAt := 1001\<rparr>, bob]
   \<and> list_all2 (\<lambda>row row'.
          User.ID row' = User.ID row
        \<and> User.CreatedAt row' = User.CreatedAt row
        \<and> (User.ID row \<noteq> 1 \<longrightarrow> row' = row)
        \<and> User.Username row' = User.Username row
        \<and> User.Email row' = User.Email row
        \<and> User.PasswordHash row' = User.PasswordHash row)
       [alice, bob]
       (snd (ActionUpdateProfile sampleEnv
         (Inr \<lparr>UserUpdateRequest.Username = None, Email = None, Gender = Some ''Male'',
               Password = None\<rparr>)
         [alice, bob] (Set (request None) ''user_id'' (AnyInt 1))))"
proof -
  let ?req = "\<lparr>UserUpdateRequest.Username = None, Email = None, Gender = Some ''Male'',
               Password = None\<rparr>"
  let ?ctx = "Set (request None) ''user_id'' (AnyInt 1)"
  let ?run = "ActionUpdateProfile sampleEnv (Inr ?req) [alice, bob] ?ctx"
  have pk: "distinct (map User.ID [alice, bob])"
    by (simp add: alice_def bob_def)
  have who: "GetUserID ?ctx = (1, True)"
    by (simp add: GetUserID_def Set_def)
  have run: "?run = (fst ?run, snd ?run)"
    by simp
  have lower: "ToLower (\<lambda>s. s) ''Male'' = ''male''"
    by code_simp
  have valid: "UserUpdateRequest_Validate (\<lambda>s. s) ?req = None"
    by (simp add: UserUpdateRequest_Validate_def validateGender_None)
  have written: "snd ?run = [alice\<lparr>User.Gender := ''male'', User.UpdatedAt := 1001\<rparr>, bob]"
    by (simp add: ActionUpdateProfile_def who valid sampleEnv_def GetByID_def Update_def
        BeforeUpdate_def setRow_def ParseGender_def lower GenderMale_def Let_def
        alice_def bob_def)
  from ActionUpdateProfile_frame [OF pk who run] written show ?thesis
    by simp
qed

section \<open>Passwords: the wrappers over the bcrypt library\<close>

lemma salt_of_hash:
  "length salt = 22 \<Longrightarrow> take 22 (drop 7 (bcryptHash digest salt password)) = salt"
  by (simp add: bcryptHash_def)

lemma bcryptHash_eq:
  "bcryptHash digest salt p = bcryptHash digest salt p'
     \<longleftrightarrow> digest salt (take 72 p) = digest salt (take 72 p')"
  by (simp add: bcryptHash_def)

lemma Compare_generated:
  assumes "length salt = 22"
  shows "CompareHashAndPassword digest (bcryptHash digest salt p2) p =
     (if digest salt (take 72 p) = digest salt (take 72 p2) then None
      else Some ErrMismatchedHashAndPassword)"
  using assms
  by (auto simp: CompareHashAndPassword_def Let_def salt_of_hash bcryptHash_eq)

lemma HashPassword_bcrypt:
  "HashPassword (GenerateFromPassword digest (Inr salt)) p =
     (if 72 < length p then Inl (''failed to hash password: '' @ ErrPasswordTooLong)
      else Inr (bcryptHash digest salt p))"
  by (simp add: HashPassword_def GenerateFromPassword_def)

lemma CheckPassword_generated:
  assumes "length salt = 22"
  shows "CheckPassword (CompareHashAndPassword digest) p (bcryptHash digest salt p2) =
     (if digest salt (take 72 p) = digest salt (take 72 p2) then None
      else Some ''invalid password'')"
  by (simp add: CheckPassword_def Compare_generated [OF assms])

text \<open>With the library of before the length check, hashing never refuses, and two
  passwords with the same first 72 bytes verify against each other's hashes.\<close>

lemma legacy_truncation:
  assumes "length salt = 22" and "take 72 p = take 72 p2"
  shows "\<exists>h. HashPassword (GenerateFromPasswordLegacy digest (Inr salt)) p2 = Inr h
           \<and> CheckPassword (CompareHashAndPassword digest) p h = None"
  using assms
  by (simp add: HashPassword_def GenerateFromPasswordLegacy_def CheckPassword_generated)

text \<open>
  C3, as the code has it. With a salt drawn without error: \<^verbatim>\<open>HashPassword\<close> returns
  a hash for every password of at most 72 bytes, and \<^verbatim>\<open>CheckPassword\<close> of that
  password against that hash succeeds; \<^verbatim>\<open>HashPassword\<close> fails on every password of
  more than 72 bytes. \<^verbatim>\<open>CheckPassword\<close> of \<open>p\<close> against the hash of \<open>p2\<close> succeeds
  exactly when the digests of the first 72 bytes of \<open>p\<close> and of \<open>p2\<close> under the salt of
  the hash are equal, and fails with "invalid password" otherwise.
\<close>

theorem HashPassword_CheckPassword_bcrypt:
  assumes "length salt = 22"
  shows "(length p \<le> 72 \<longrightarrow>
            (\<exists>h. HashPassword (GenerateFromPassword digest (Inr salt)) p = Inr h
               \<and> CheckPassword (CompareHashAndPassword digest) p h = None))
    \<and> (72 < length p \<longrightarrow>
            HashPassword (GenerateFromPassword digest (Inr salt)) p
              = Inl (''failed to hash password: '' @ ErrPasswordTooLong))
    \<and> (\<forall>h. HashPassword (GenerateFromPassword digest (Inr salt)) p2 = Inr h \<longrightarrow>
            CheckPassword (CompareHashAndPassword digest) p h
              = (if digest salt (take 72 p) = digest salt (take 72 p2) then None
                 else Some ''invalid password''))"
  by (auto simp: HashPassword_bcrypt CheckPassword_generated [OF assms] split: if_splits)

theorem HashPassword_CheckPassword_bcrypt_witness:
  "HashPassword (GenerateFromPassword sampleDigest (Inr sampleSalt)) ''Passw0rd''
     = Inr (bcryptHash sampleDigest sampleSalt ''Passw0rd'')
   \<and> CheckPassword (CompareHashAndPassword sampleDigest) ''Passw0rd''
        (bcryptHash sampleDigest sampleSalt ''Passw0rd'') = None
   \<and> CheckPassword (CompareHashAndPassword sampleDigest) ''S3cretKey''
        (bcryptHash sampleDigest sampleSalt ''Passw0rd'') = Some ''invalid password''"
proof -
  have salt: "length sampleSalt = 22" by (simp add: sampleSalt_def)
  have hash: "HashPassword (GenerateFromPassword sampleDigest (Inr sampleSalt)) ''Passw0rd''
     = Inr (bcryptHash sampleDigest sampleSalt ''Passw0rd'')"
    by (simp add: HashPassword_def GenerateFromPassword_def)
  show ?thesis
    using HashPassword_CheckPassword_bcrypt [OF salt, of "''Passw0rd''" sampleDigest "''Passw0rd''"]
      HashPassword_CheckPassword_bcrypt [OF salt, of "''S3cretKey''" sampleDigest "''Passw0rd''"]
    by (simp add: hash sampleDigest_def)
qed

text \<open>
  C3, as the claim states it, fails on passwords of more than 72 bytes, which
  \<^verbatim>\<open>validatePassword\<close> lets through. For the 73 bytes \<^verbatim>\<open>A1aaa...a\<close> no hash is
  produced, so there is nothing for \<^verbatim>\<open>CheckPassword\<close> to succeed on; and these 73
  bytes verify against the hash of their first 72, a different password.
\<close>

theorem HashPassword_CheckPassword_counterexample:
  "validatePassword (''A1'' @ replicate 71 CHR ''a'') = None
   \<and> HashPassword (GenerateFromPassword sampleDigest (Inr sampleSalt))
        (''A1'' @ replicate 71 CHR ''a'')
      = Inl ''failed to hash password: bcrypt: password length exceeds 72 bytes''
   \<and> ''A1'' @ replicate 71 CHR ''a'' \<noteq> ''A1'' @ replicate 70 CHR ''a''
   \<and> HashPassword (GenerateFromPassword sampleDigest (Inr sampleSalt))
        (''A1'' @ replicate 70 CHR ''a'')
      = Inr (bcryptHash sampleDigest sampleSalt (''A1'' @ replicate 70 CHR ''a''))
   \<and> CheckPassword (CompareHashAndPassword sampleDigest) (''A1'' @ replicate 71 CHR ''a'')
        (bcryptHash sampleDigest sampleSalt (''A1'' @ replicate 70 CHR ''a'')) = None"
proof -
  have v: "validatePassword (''A1'' @ replicate 71 CHR ''a'') = None"
    by code_simp
  have salt: "length sampleSalt = 22" by (simp add: sampleSalt_def)
  have same: "take 72 (''A1'' @ replicate 71 CHR ''a'') = take 72 (''A1'' @ replicate 70 CHR ''a'')"
    by (simp add: replicate_append_same [symmetric] del: replicate_append_same)
  have ne: "''A1'' @ replicate 71 CHR ''a'' \<noteq> ''A1'' @ replicate 70 CHR ''a''"
  proof
    assume "''A1'' @ replicate 71 CHR ''a'' = ''A1'' @ replicate 70 CHR ''a''"
    then have "length (''A1'' @ replicate 71 CHR ''a'') = length (''A1'' @ replicate 70 CHR ''a'')"
      by (rule arg_cong)
    then show False by simp
  qed
  show ?thesis
    using v ne
    by (simp add: HashPassword_bcrypt CheckPassword_generated [OF salt] same
        ErrPasswordTooLong_def)
qed

end
